theory Spec2Isabelle
  imports Main "HOL-Library.Word"
begin

unbundle bit_operations_syntax

section \<open>The coherent cache controller: data model\<close>

text \<open>
  The model follows the C++ of \<^verbatim>\<open>Cache\<close> (the second part of
  \<^verbatim>\<open>src/sst/elements/patterns/src_ghost_bench/ghost.c\<close>, lines 345 to 2033).
  The class declaration (\<^verbatim>\<open>cache.h\<close>), the event class (\<^verbatim>\<open>memEvent.h\<close>),
  the network interface (\<^verbatim>\<open>memNIC.h\<close>) and the bus queue are not part of the
  sources at hand: the records below list the fields that the member functions read and
  write, and the few helpers of those headers that the functions call are modelled from
  the specification, each marked as such.

  Pointers are handles: a block pointer is the pair (row, column) of the block in the
  database, a \<^verbatim>\<open>LoadInfo_t*\<close> is a key of the store \<open>loadInfos\<close>, a null
  pointer is \<open>None\<close>. A fatal \<^verbatim>\<open>_abort\<close>, a failed assertion, the use of a null
  or dangling pointer and an access out of range are values of \<open>error\<close>.
\<close>

type_synonym Addr = "64 word"
type_synonym id_type = "64 word \<times> 32 word"
type_synonym LinkId = int
type_synonym SimTime = "64 word"
type_synonym byte = "8 word"
type_synonym BlockPtr = "nat \<times> nat"

datatype error = Abort | AssertFailed | NullDeref | OutOfBounds | DivByZero

datatype Command =
    ReadReq | ReadResp | WriteReq | WriteResp | RequestData | SupplyData
  | Invalidate | ACK | NACK | Fetch | FetchInvalidate | FetchResp
  | BusClearToSend | NULLCMD

datatype Flag = F_WRITEBACK | F_LOCKED | F_DELAYED

datatype SourceType = UPSTREAM | DOWNSTREAM | SNOOP | DIRECTORY | SELF | PREFETCHER

datatype ForwardDir = SEND_DOWN | SEND_UP | SEND_BOTH

datatype BlockStatus = INVALID | ASSIGNED | SHARED | EXCLUSIVE | DIRTY

datatype CacheMode = STANDARD | INCLUSIVE | MODE_EXCLUSIVE

datatype NotifyAccessType = READ | WRITE

datatype NotifyResultType = HIT | MISS

record MemEvent =
  ev_id :: id_type
  ev_responseTo :: id_type
  ev_cmd :: Command
  ev_src :: string
  ev_dst :: string
  ev_addr :: Addr
  ev_size :: "32 word"
  ev_flags :: "Flag set"
  ev_payload :: "byte list"
  ev_linkId :: LinkId

record CacheBlock =
  tag :: Addr
  baseAddr :: Addr
  last_touched :: SimTime
  status :: BlockStatus
  data :: "byte list"
  locked :: nat
  loadInfo :: "nat option"
  wb_in_progress :: bool
  user_lock_needs_wb :: bool
  user_locked :: nat

record CacheRow =
  blocks :: "CacheBlock list"
  row_waitingEvents :: "(Addr \<times> (MemEvent \<times> SourceType) list) list"

record LoadElement =
  le_ev :: "MemEvent option"
  le_src :: SourceType
  le_issueTime :: SimTime

record LoadInfo =
  li_addr :: Addr
  targetBlock :: "BlockPtr option"
  li_busEvent :: "MemEvent option"
  initiatingEvent :: id_type
  loadDirection :: ForwardDir
  li_list :: "LoadElement list"

record Invalidation =
  waitingACKs :: int
  waitingEvents :: "(MemEvent \<times> SourceType) list"
  inv_busEvent :: "MemEvent option"
  issuingEvent :: id_type
  inv_block :: "BlockPtr option"
  newStatus :: BlockStatus
  canCancel :: bool

record SupplyInfo =
  sup_busEvent :: "MemEvent option"
  canceled :: bool

record ComponentInfo =
  ci_name :: string
  rangeStart :: Addr
  rangeEnd :: Addr
  interleaveSize :: Addr
  interleaveStep :: Addr

text \<open>
  The deferred work that the handlers hand to the self link and to the bus queue: a
  \<^verbatim>\<open>SelfEvent\<close> binds a member function to its arguments, a bus handler binds
  one to its \<^verbatim>\<open>BusHandlerArgs\<close>.
\<close>

datatype SelfEvent =
    RetryEvent MemEvent "BlockPtr option" SourceType
  | SendCPUResponse MemEvent BlockPtr SourceType
  | FinishLoadBlock nat Addr BlockPtr
  | SupplyDataEvent MemEvent BlockPtr SourceType

datatype BusFinishHandler =
    FinishLoadBlockBus nat
  | FinishBusSupplyData BlockPtr SourceType bool
  | FinishWritebackBlockVA BlockPtr BlockStatus bool

datatype BusInitHandler =
    PrepBusSupplyData BlockPtr SourceType bool
  | PrepWritebackBlock BlockPtr BlockStatus bool

record BusRequest =
  br_event :: MemEvent
  br_finish :: "BusFinishHandler option"
  br_init :: "BusInitHandler option"

datatype LinkTarget = DownstreamLink | DirectoryLink | UpstreamLink nat

datatype Action =
    Send LinkTarget MemEvent
  | SelfSend nat SelfEvent
  | NotifyAccess NotifyAccessType NotifyResultType Addr

record Config =
  name :: string
  n_ways :: nat
  n_rows :: nat
  blocksize :: "32 word"
  cacheMode :: CacheMode
  n_upstream :: nat
  upstream_links :: "LinkId list"
  next_level_name :: string
  downstream_link :: bool
  snoop_link :: bool
  directory_link :: bool
  rowshift :: nat
  rowmask :: Addr
  tagshift :: nat
  directories :: "ComponentInfo list"
  default_cancelable :: bool
  default_emptyOK :: bool

text \<open>
  \<open>default_cancelable\<close> and \<open>default_emptyOK\<close> stand for the default arguments
  of \<^verbatim>\<open>issueInvalidate\<close> and \<^verbatim>\<open>findBlock\<close>: they are declared in the missing
  \<^verbatim>\<open>cache.h\<close> and stay parameters of the model.
\<close>

record Stats =
  num_read_hit :: "64 word"
  num_read_miss :: "64 word"
  num_supply_hit :: "64 word"
  num_supply_miss :: "64 word"
  num_write_hit :: "64 word"
  num_write_miss :: "64 word"
  num_upgrade_miss :: "64 word"

record Cache =
  cfg :: Config
  stats :: Stats
  isL1 :: bool
  database :: "CacheRow list"
  waitingLoads :: "Addr \<rightharpoonup> nat"
  loadInfos :: "nat \<rightharpoonup> LoadInfo"
  next_li :: nat
  invalidations :: "Addr \<rightharpoonup> Invalidation"
  supplyInProgress :: "(Addr \<times> SourceType) \<rightharpoonup> SupplyInfo"
  upstreamLinkMap :: "LinkId \<rightharpoonup> nat"
  snoopBusQueue :: "BusRequest list"
  now :: SimTime
  next_event_id :: "64 word"
  out :: "Action list"

definition NO_NEXT_LEVEL :: string where
  "NO_NEXT_LEVEL = ''NONE''"

section \<open>Results, effects and pointers\<close>

definition bindE :: "error + 'a \<Rightarrow> ('a \<Rightarrow> error + 'b) \<Rightarrow> error + 'b" where
  "bindE m f = (case m of Inl e \<Rightarrow> Inl e | Inr x \<Rightarrow> f x)"

definition emit :: "Action \<Rightarrow> Cache \<Rightarrow> Cache" where
  "emit a c = c\<lparr>out := out c @ [a]\<rparr>"

definition getBlock :: "Cache \<Rightarrow> BlockPtr \<Rightarrow> error + CacheBlock" where
  "getBlock c bp =
     (if fst bp < length (database c) \<and> snd bp < length (blocks (database c ! fst bp))
      then Inr (blocks (database c ! fst bp) ! snd bp)
      else Inl OutOfBounds)"

definition setBlock :: "BlockPtr \<Rightarrow> CacheBlock \<Rightarrow> Cache \<Rightarrow> Cache" where
  "setBlock bp b c =
     c\<lparr>database := (database c)[fst bp :=
          (database c ! fst bp)\<lparr>blocks := (blocks (database c ! fst bp))[snd bp := b]\<rparr>]\<rparr>"

definition derefBlock :: "Cache \<Rightarrow> BlockPtr option \<Rightarrow> error + CacheBlock" where
  "derefBlock c p = (case p of None \<Rightarrow> Inl NullDeref | Some bp \<Rightarrow> getBlock c bp)"

definition derefLoadInfo :: "Cache \<Rightarrow> nat \<Rightarrow> error + LoadInfo" where
  "derefLoadInfo c li = (case loadInfos c li of None \<Rightarrow> Inl NullDeref | Some l \<Rightarrow> Inr l)"

text \<open>
  Modelled from the spec: \<^verbatim>\<open>CacheBlock::lock\<close>, \<^verbatim>\<open>unlock\<close>, \<^verbatim>\<open>isLocked\<close>,
  \<^verbatim>\<open>isValid\<close>, \<^verbatim>\<open>isInvalid\<close>, \<^verbatim>\<open>isAssigned\<close> and \<^verbatim>\<open>activate\<close> of
  \<^verbatim>\<open>cache.h\<close>, which is missing. The spec: \<open>locked_count\<close> is the protocol lock,
  non-zero meaning that the block may not be re-used; a block is found by a lookup when it
  is valid, and an Assigned block is not a hit for any observer; a load sets its slot
  Assigned with the tag and the base address of the load.
\<close>

definition lock :: "CacheBlock \<Rightarrow> CacheBlock" where
  "lock b = b\<lparr>locked := locked b + 1\<rparr>"

definition unlock :: "CacheBlock \<Rightarrow> CacheBlock" where
  "unlock b = b\<lparr>locked := locked b - 1\<rparr>"

definition isLocked :: "CacheBlock \<Rightarrow> bool" where
  "isLocked b = (0 < locked b)"

definition isValid :: "CacheBlock \<Rightarrow> bool" where
  "isValid b = (status b \<noteq> INVALID \<and> status b \<noteq> ASSIGNED)"

definition isInvalid :: "CacheBlock \<Rightarrow> bool" where
  "isInvalid b = (status b = INVALID)"

definition isAssigned :: "CacheBlock \<Rightarrow> bool" where
  "isAssigned b = (status b = ASSIGNED)"

section \<open>Events\<close>

text \<open>
  Modelled from the spec: the constructors and setters of \<^verbatim>\<open>MemEvent\<close>
  (\<^verbatim>\<open>memEvent.h\<close> is missing). The spec gives the schema of an event: id,
  response_to, cmd, src, dst, addr, size, flags, payload, link_id. A new event gets a
  fresh id and the name of this cache as its source; the copy of an event keeps its id
  (the ACK of a copy must match the id recorded for the original); a response answers to
  the id of the request and is addressed to its source.
\<close>

definition newMemEvent :: "Cache \<Rightarrow> Addr \<Rightarrow> Command \<Rightarrow> MemEvent \<times> Cache" where
  "newMemEvent c a cmd =
     (\<lparr>ev_id = (next_event_id c, 0), ev_responseTo = (0, 0), ev_cmd = cmd,
       ev_src = name (cfg c), ev_dst = [], ev_addr = a, ev_size = 0, ev_flags = {},
       ev_payload = [], ev_linkId = 0\<rparr>,
      c\<lparr>next_event_id := next_event_id c + 1\<rparr>)"

definition commandResponse :: "Command \<Rightarrow> Command" where
  "commandResponse cmd =
     (case cmd of ReadReq \<Rightarrow> ReadResp | WriteReq \<Rightarrow> WriteResp
      | RequestData \<Rightarrow> SupplyData | SupplyData \<Rightarrow> WriteResp
      | Invalidate \<Rightarrow> ACK | Fetch \<Rightarrow> FetchResp | FetchInvalidate \<Rightarrow> FetchResp
      | _ \<Rightarrow> NULLCMD)"

definition makeResponse :: "Cache \<Rightarrow> MemEvent \<Rightarrow> MemEvent \<times> Cache" where
  "makeResponse c ev =
     (let (me, c') = newMemEvent c (ev_addr ev) (commandResponse (ev_cmd ev))
      in (me\<lparr>ev_size := ev_size ev, ev_responseTo := ev_id ev, ev_dst := ev_src ev\<rparr>, c'))"

definition queryFlag :: "MemEvent \<Rightarrow> Flag \<Rightarrow> bool" where
  "queryFlag ev f = (f \<in> ev_flags ev)"

definition setFlag :: "Flag \<Rightarrow> MemEvent \<Rightarrow> MemEvent" where
  "setFlag f ev = ev\<lparr>ev_flags := insert f (ev_flags ev)\<rparr>"

definition setPayload :: "byte list \<Rightarrow> MemEvent \<Rightarrow> MemEvent" where
  "setPayload d ev = ev\<lparr>ev_size := of_nat (length d), ev_payload := d\<rparr>"

section \<open>Address arithmetic and lookup\<close>

definition addrToTag :: "Cache \<Rightarrow> Addr \<Rightarrow> Addr" where
  "addrToTag c a = drop_bit (tagshift (cfg c)) a"

text \<open>
  \<^verbatim>\<open>addr & ~(blocksize-1)\<close>: the block size is a 32-bit unsigned value (it is
  compared with the 32-bit size of an event and passed with it to \<^verbatim>\<open>std::min\<close>),
  so the mask is computed in 32 bits and widened.
\<close>

definition addrToBlockAddr :: "Cache \<Rightarrow> Addr \<Rightarrow> Addr" where
  "addrToBlockAddr c a = a AND ucast (NOT (blocksize (cfg c) - 1))"

definition findRow :: "Cache \<Rightarrow> Addr \<Rightarrow> error + nat" where
  "findRow c a =
     (let row = drop_bit (rowshift (cfg c)) a AND rowmask (cfg c)
      in if unat row < n_rows (cfg c) then
           (if unat row < length (database c) then Inr (unat row) else Inl OutOfBounds)
         else Inl AssertFailed)"

fun findFirst :: "(CacheBlock \<Rightarrow> bool) \<Rightarrow> CacheBlock list \<Rightarrow> nat \<Rightarrow> nat \<Rightarrow> error + nat option" where
  "findFirst P bs i 0 = Inr None"
| "findFirst P bs i (Suc k) =
     (if i < length bs then
        (if P (bs ! i) then Inr (Some i) else findFirst P bs (Suc i) k)
      else Inl OutOfBounds)"

definition findBlock :: "Cache \<Rightarrow> Addr \<Rightarrow> bool \<Rightarrow> error + BlockPtr option" where
  "findBlock c a emptyOK =
     bindE (findRow c a) (\<lambda>row.
       let t = (ucast (ucast (addrToTag c a) :: 32 word) :: Addr);
           bs = blocks (database c ! row)
       in bindE (findFirst (\<lambda>b. isValid b \<and> tag b = t) bs 0 (n_ways (cfg c))) (\<lambda>hit.
            case hit of
              Some i \<Rightarrow> Inr (Some (row, i))
            | None \<Rightarrow>
                if emptyOK then
                  bindE (findFirst isInvalid bs 0 (n_ways (cfg c))) (\<lambda>e.
                    Inr (map_option (\<lambda>i. (row, i)) e))
                else Inr None))"

section \<open>Directory targeting\<close>

fun scanDirectories :: "ComponentInfo list \<Rightarrow> Addr \<Rightarrow> error + string" where
  "scanDirectories [] a = Inl Abort"
| "scanDirectories (i # rest) a =
     (if rangeStart i \<le> a \<and> a < rangeEnd i then
        (if interleaveSize i = 0 then Inr (ci_name i)
         else if interleaveStep i = 0 then Inl DivByZero
         else
           (let temp = a - rangeStart i;
                offset = temp mod interleaveStep i
            in if offset < interleaveSize i then Inr (ci_name i)
               else scanDirectories rest a))
      else scanDirectories rest a)"

definition findTargetDirectory :: "Cache \<Rightarrow> Addr \<Rightarrow> error + string" where
  "findTargetDirectory c a = scanDirectories (directories (cfg c)) a"

text \<open>
  The rule of the specification for one peer: the range contains the address, and the
  interleave size is zero or the offset in the interleave step is below it.
\<close>

definition spec_directory_matches :: "Addr \<Rightarrow> ComponentInfo \<Rightarrow> bool" where
  "spec_directory_matches a d =
     (rangeStart d \<le> a \<and> a < rangeEnd d \<and>
      (interleaveSize d = 0 \<or> (a - rangeStart d) mod interleaveStep d < interleaveSize d))"

section \<open>The bus queue\<close>

text \<open>
  Modelled from the spec: the bus queue adapter \<^verbatim>\<open>snoopBusQueue\<close>, whose class is
  missing. The spec: a request is enqueued with its optional init and finish callbacks;
  a request may be cancelled while it is still queued, and the cancellation returns its
  handlers so that they can be destroyed.
\<close>

definition busRequest ::
  "MemEvent \<Rightarrow> BusFinishHandler option \<Rightarrow> BusInitHandler option \<Rightarrow> Cache \<Rightarrow> Cache" where
  "busRequest ev fin ini c =
     c\<lparr>snoopBusQueue := snoopBusQueue c @ [\<lparr>br_event = ev, br_finish = fin, br_init = ini\<rparr>]\<rparr>"

fun removeRequest :: "MemEvent \<Rightarrow> BusRequest list \<Rightarrow> BusRequest option \<times> BusRequest list" where
  "removeRequest ev [] = (None, [])"
| "removeRequest ev (r # rs) =
     (if br_event r = ev then (Some r, rs)
      else (let (found, rest) = removeRequest ev rs in (found, r # rest)))"

definition busCancelRequest ::
  "MemEvent \<Rightarrow> Cache \<Rightarrow> (BusFinishHandler option \<times> BusInitHandler option) \<times> Cache" where
  "busCancelRequest ev c =
     (let (found, rest) = removeRequest ev (snoopBusQueue c)
      in ((case found of None \<Rightarrow> (None, None) | Some r \<Rightarrow> (br_finish r, br_init r)),
          c\<lparr>snoopBusQueue := rest\<rparr>))"

section \<open>Rows: waiting events\<close>

fun minKey :: "(Addr \<times> 'a) list \<Rightarrow> (Addr \<times> 'a) option" where
  "minKey [] = None"
| "minKey (x # xs) =
     (case minKey xs of
        None \<Rightarrow> Some x
      | Some y \<Rightarrow> if fst y < fst x then Some y else Some x)"

definition eraseKey :: "Addr \<Rightarrow> (Addr \<times> 'a) list \<Rightarrow> (Addr \<times> 'a) list" where
  "eraseKey k xs = filter (\<lambda>p. fst p \<noteq> k) xs"

definition setRowWaiting ::
  "nat \<Rightarrow> (Addr \<times> (MemEvent \<times> SourceType) list) list \<Rightarrow> Cache \<Rightarrow> Cache" where
  "setRowWaiting r w c =
     c\<lparr>database := (database c)[r := (database c ! r)\<lparr>row_waitingEvents := w\<rparr>]\<rparr>"

text \<open>
  Modelled from the spec: \<^verbatim>\<open>CacheRow::addWaitingEvent\<close> and
  \<^verbatim>\<open>CacheRow::getLRU\<close> of the missing \<^verbatim>\<open>cache.h\<close>. The spec: a row maps a
  base address to a FIFO of (event, source) entries that wait for the row; the LRU of a row
  is its least-recently-touched unlocked block, or none if every way is locked.
\<close>

definition addWaitingEvent :: "nat \<Rightarrow> MemEvent \<Rightarrow> SourceType \<Rightarrow> Cache \<Rightarrow> Cache" where
  "addWaitingEvent r ev src c =
     (let w = row_waitingEvents (database c ! r);
          k = addrToBlockAddr c (ev_addr ev)
      in setRowWaiting r
           (case map_of w k of
              None \<Rightarrow> w @ [(k, [(ev, src)])]
            | Some q \<Rightarrow> map (\<lambda>p. if fst p = k then (k, q @ [(ev, src)]) else p) w) c)"

fun lruScan :: "CacheBlock list \<Rightarrow> nat \<Rightarrow> (nat \<times> SimTime) option \<Rightarrow> nat option" where
  "lruScan [] i best = map_option fst best"
| "lruScan (b # bs) i best =
     lruScan bs (Suc i)
       (if isLocked b then best
        else (case best of
                None \<Rightarrow> Some (i, last_touched b)
              | Some (j, t) \<Rightarrow> if last_touched b < t then Some (i, last_touched b) else best))"

definition getLRU :: "Cache \<Rightarrow> nat \<Rightarrow> BlockPtr option" where
  "getLRU c r = map_option (\<lambda>i. (r, i)) (lruScan (blocks (database c ! r)) 0 None)"

definition activate :: "Cache \<Rightarrow> Addr \<Rightarrow> CacheBlock \<Rightarrow> CacheBlock" where
  "activate c a b = b\<lparr>tag := addrToTag c a, baseAddr := addrToBlockAddr c a, status := ASSIGNED\<rparr>"

definition handlePendingEvents :: "nat \<Rightarrow> BlockPtr option \<Rightarrow> Cache \<Rightarrow> error + Cache" where
  "handlePendingEvents r block c =
     (if r < length (database c) then
        (let w = row_waitingEvents (database c ! r)
         in if 0 < length w then
              bindE (case block of
                       Some bp \<Rightarrow>
                         bindE (getBlock c bp) (\<lambda>b.
                           Inr (map_option (Pair (baseAddr b)) (map_of w (baseAddr b))))
                     | None \<Rightarrow> Inr (minKey w)) (\<lambda>q.
                case q of
                  None \<Rightarrow> Inr c
                | Some (k, queue) \<Rightarrow>
                    Inr (setRowWaiting r (eraseKey k w)
                          (foldl (\<lambda>c' e. emit (SelfSend 1 (RetryEvent (fst e) None (snd e))) c')
                             c queue)))
            else Inr c)
      else Inl OutOfBounds)"

section \<open>Block data\<close>

fun updateLoop ::
  "32 word \<Rightarrow> Addr \<Rightarrow> Addr \<Rightarrow> byte list \<Rightarrow> nat \<Rightarrow> nat \<Rightarrow> byte list \<Rightarrow> error + byte list" where
  "updateLoop bs blockoffset payloadoffset pl i 0 d = Inr d"
| "updateLoop bs blockoffset payloadoffset pl i (Suc k) d =
     (if blockoffset + of_nat i < ucast bs then
        (if unat (blockoffset + of_nat i) < length d \<and> unat (payloadoffset + of_nat i) < length pl
         then updateLoop bs blockoffset payloadoffset pl (Suc i) k
                (d[unat (blockoffset + of_nat i) := pl ! unat (payloadoffset + of_nat i)])
         else Inl OutOfBounds)
      else Inl AssertFailed)"

definition updateBlock :: "MemEvent \<Rightarrow> BlockPtr \<Rightarrow> Cache \<Rightarrow> error + Cache" where
  "updateBlock ev bp c =
     bindE (getBlock c bp) (\<lambda>b.
       bindE
         (if ev_size ev = blocksize (cfg c) then
            (if length (ev_payload ev) \<le> length (data b)
             then Inr (ev_payload ev @ drop (length (ev_payload ev)) (data b))
             else Inl OutOfBounds)
          else
            (let blockoffset = (if ev_addr ev \<le> baseAddr b then 0 else ev_addr ev - baseAddr b);
                 payloadoffset = (if baseAddr b \<le> ev_addr ev then 0 else baseAddr b - ev_addr ev)
             in updateLoop (blocksize (cfg c)) blockoffset payloadoffset (ev_payload ev) 0
                  (unat (min (blocksize (cfg c)) (ev_size ev))) (data b)))
         (\<lambda>d. Inr (setBlock bp (b\<lparr>data := d, last_touched := now c\<rparr>) c)))"

definition makeCPUResponse ::
  "MemEvent \<Rightarrow> BlockPtr \<Rightarrow> SourceType \<Rightarrow> Cache \<Rightarrow> error + MemEvent \<times> Cache" where
  "makeCPUResponse ev bp src c =
     bindE (getBlock c bp) (\<lambda>b.
       let offset = ev_addr ev - baseAddr b
       in if ucast (blocksize (cfg c)) < offset + ucast (ev_size ev) then Inl Abort
          else
            (let (resp, c') = makeResponse c ev
             in if ev_cmd ev = ReadReq then
                  (if unat offset + unat (ev_size ev) \<le> length (data b)
                   then Inr (resp\<lparr>ev_size := ev_size ev,
                                  ev_payload := take (unat (ev_size ev)) (drop (unat offset) (data b))\<rparr>,
                             c')
                   else Inl OutOfBounds)
                else Inr (resp, c')))"

section \<open>Writeback\<close>

definition writebackEvent :: "CacheBlock \<Rightarrow> Cache \<Rightarrow> MemEvent \<times> Cache" where
  "writebackEvent b c =
     (let (ev, c') = newMemEvent c (baseAddr b) SupplyData
      in (setPayload (data b) (setFlag F_WRITEBACK ev), c'))"

definition finishWritebackBlock :: "BlockPtr \<Rightarrow> BlockStatus \<Rightarrow> bool \<Rightarrow> Cache \<Rightarrow> error + Cache" where
  "finishWritebackBlock bp newSt decrementLock c =
     bindE (getBlock c bp) (\<lambda>b0.
       let b1 = b0\<lparr>wb_in_progress := False\<rparr>;
           b2 = (if decrementLock then unlock b1 else b1);
           c1 = setBlock bp b2 c;
           c2 = (if downstream_link (cfg c1)
                 then (let (ev, c') = writebackEvent b2 c1 in emit (Send DownstreamLink ev) c')
                 else c1);
           c3 = (if directory_link (cfg c2)
                 then (let (ev, c') = writebackEvent b2 c2 in emit (Send DirectoryLink ev) c')
                 else c2)
       in bindE (findRow c3 (baseAddr b2)) (\<lambda>row.
            let b3 = b2\<lparr>status := newSt\<rparr>;
                c4 = setBlock bp b3 c3
            in if newSt = INVALID then
                 (if isLocked b3 then Inl AssertFailed else handlePendingEvents row None c4)
               else handlePendingEvents row (Some bp) c4))"

definition writebackBlock :: "BlockPtr \<Rightarrow> BlockStatus \<Rightarrow> Cache \<Rightarrow> error + Cache" where
  "writebackBlock bp newSt c =
     bindE (getBlock c bp) (\<lambda>b0.
       if wb_in_progress b0 then Inr c
       else
         (let b1 = b0\<lparr>wb_in_progress := True\<rparr>
          in if snoop_link (cfg c) then
               (let b2 = lock b1;
                    c1 = setBlock bp b2 c;
                    (ev, c2) = writebackEvent b2 c1
                in Inr (busRequest ev (Some (FinishWritebackBlockVA bp newSt True))
                          (Some (PrepWritebackBlock bp newSt True)) c2))
             else finishWritebackBlock bp newSt False (setBlock bp b1 c)))"

section \<open>Invalidation\<close>

text \<open>
  The dispatcher \<^verbatim>\<open>handleIncomingEvent(event, src, firstTimeProcessed,
  firstPhaseComplete)\<close> calls the handlers, and handlers that replay queued events call
  the dispatcher again; it also hands \<^verbatim>\<open>BusClearToSend\<close> to the bus queue, whose
  code is missing. The handlers below take the dispatcher that they call back as an
  argument, and what is proved of them holds for every dispatcher.
\<close>

type_synonym Dispatcher = "MemEvent \<Rightarrow> SourceType \<Rightarrow> bool \<Rightarrow> bool \<Rightarrow> Cache \<Rightarrow> error + Cache"

text \<open>
  Modelled from the spec: the default constructor of \<^verbatim>\<open>Invalidation\<close> (the missing
  \<^verbatim>\<open>cache.h\<close>), which \<^verbatim>\<open>std::map::operator[]\<close> runs for an address that has no
  record. The spec lists the fields of the record; a fresh one waits for no ACK, holds no
  event, no bus request and no block.
\<close>

definition defaultInvalidation :: Invalidation where
  "defaultInvalidation =
     \<lparr>waitingACKs = 0, waitingEvents = [], inv_busEvent = None, issuingEvent = (0, 0),
      inv_block = None, newStatus = INVALID, canCancel = False\<rparr>"

text \<open>
  \<^verbatim>\<open>invalidations[addr]\<close>: \<open>touchInv\<close> is the insertion that the lookup makes for
  a missing key, \<open>getInv\<close> reads the record, \<open>updInv\<close> writes through the reference.
\<close>

definition touchInv :: "Addr \<Rightarrow> Cache \<Rightarrow> Cache" where
  "touchInv a c =
     (case invalidations c a of
        None \<Rightarrow> c\<lparr>invalidations := (invalidations c)(a \<mapsto> defaultInvalidation)\<rparr>
      | Some i \<Rightarrow> c)"

definition getInv :: "Cache \<Rightarrow> Addr \<Rightarrow> Invalidation" where
  "getInv c a = (case invalidations c a of None \<Rightarrow> defaultInvalidation | Some i \<Rightarrow> i)"

definition updInv :: "Addr \<Rightarrow> (Invalidation \<Rightarrow> Invalidation) \<Rightarrow> Cache \<Rightarrow> Cache" where
  "updInv a f c = c\<lparr>invalidations := (invalidations c)(a \<mapsto> f (getInv c a))\<rparr>"

definition waitingForInvalidate :: "Cache \<Rightarrow> Addr \<Rightarrow> bool" where
  "waitingForInvalidate c a = (invalidations c a \<noteq> None)"

fun replayWaiting ::
  "Dispatcher \<Rightarrow> (MemEvent \<times> SourceType) list \<Rightarrow> bool \<Rightarrow> Cache \<Rightarrow> error + Cache" where
  "replayWaiting disp [] first c = Inr c"
| "replayWaiting disp (ev2 # rest) first c =
     (case disp (fst ev2) (snd ev2) False first c of
        Inl e \<Rightarrow> Inl e
      | Inr c' \<Rightarrow> replayWaiting disp rest False c')"

definition finishIssueInvalidate :: "Dispatcher \<Rightarrow> Addr \<Rightarrow> Cache \<Rightarrow> error + Cache" where
  "finishIssueInvalidate disp a c0 =
     (let c = touchInv a c0;
          rc = getInv c a
      in if waitingACKs rc \<noteq> 0 then Inl AssertFailed
         else
           bindE (case inv_block rc of
                    None \<Rightarrow> Inr c
                  | Some bp \<Rightarrow>
                      bindE (getBlock c bp) (\<lambda>b.
                        Inr (setBlock bp ((unlock b)\<lparr>status := newStatus rc\<rparr>) c))) (\<lambda>c1.
             replayWaiting disp (waitingEvents rc) True
               (c1\<lparr>invalidations := (invalidations c1)(a := None)\<rparr>)))"

fun sendUpstreamInvalidates ::
  "MemEvent \<Rightarrow> MemEvent \<Rightarrow> Addr \<Rightarrow> nat \<Rightarrow> nat \<Rightarrow> Cache \<Rightarrow> error + Cache" where
  "sendUpstreamInvalidates ev invalidateEvent a i 0 c = Inr c"
| "sendUpstreamInvalidates ev invalidateEvent a i (Suc k) c =
     (if i < length (upstream_links (cfg c)) then
        sendUpstreamInvalidates ev invalidateEvent a (Suc i) k
          (if upstream_links (cfg c) ! i \<noteq> ev_linkId ev \<or> addrToBlockAddr c (ev_addr ev) \<noteq> a
           then updInv a (\<lambda>rc. rc\<lparr>waitingACKs := waitingACKs rc + 1\<rparr>)
                  (emit (Send (UpstreamLink i) invalidateEvent) c)
           else c)
      else Inl OutOfBounds)"

definition issueInvalidateAddr ::
  "Dispatcher \<Rightarrow> MemEvent \<Rightarrow> SourceType \<Rightarrow> Addr \<Rightarrow> ForwardDir \<Rightarrow> bool \<Rightarrow> Cache \<Rightarrow> error + Cache" where
  "issueInvalidateAddr disp ev src a direction cancelable c0 =
     (let c1 = updInv a (\<lambda>rc. rc\<lparr>waitingEvents := waitingEvents rc @ [(ev, src)],
                                     waitingACKs := 0, canCancel := cancelable\<rparr>) c0;
          (invalidateEvent, c2) = newMemEvent c1 a Invalidate;
          c3 = updInv a (\<lambda>rc. rc\<lparr>issuingEvent := ev_id invalidateEvent\<rparr>) c2;
          c4 = (if snoop_link (cfg c3)
                then updInv a (\<lambda>rc. rc\<lparr>waitingACKs := waitingACKs rc + 1,
                                            inv_busEvent := Some invalidateEvent\<rparr>)
                       (busRequest invalidateEvent None None c3)
                else c3);
          c5 = (if direction = SEND_DOWN \<or> direction = SEND_BOTH then
                  (let d1 = (if downstream_link (cfg c4) \<and> next_level_name (cfg c4) \<noteq> NO_NEXT_LEVEL
                             then updInv a (\<lambda>rc. rc\<lparr>waitingACKs := waitingACKs rc + 1\<rparr>)
                                    (emit (Send DownstreamLink invalidateEvent) c4)
                             else c4)
                   in if directory_link (cfg d1)
                      then updInv a (\<lambda>rc. rc\<lparr>waitingACKs := waitingACKs rc + 1\<rparr>)
                             (emit (Send DirectoryLink invalidateEvent) d1)
                      else d1)
                else c4)
      in bindE (if direction = SEND_UP \<or> direction = SEND_BOTH
                then sendUpstreamInvalidates ev invalidateEvent a 0 (n_upstream (cfg c5)) c5
                else Inr c5) (\<lambda>c6.
           if waitingACKs (getInv c6 a) = 0 then finishIssueInvalidate disp a c6
           else Inr c6))"

definition issueInvalidateBlock ::
  "Dispatcher \<Rightarrow> MemEvent \<Rightarrow> SourceType \<Rightarrow> BlockPtr \<Rightarrow> BlockStatus \<Rightarrow> ForwardDir \<Rightarrow> bool \<Rightarrow>
   Cache \<Rightarrow> error + Cache" where
  "issueInvalidateBlock disp ev src bp newSt direction cancelable c =
     bindE (getBlock c bp) (\<lambda>b.
       let c1 = setBlock bp (lock b) c;
           c2 = updInv (baseAddr b) (\<lambda>rc. rc\<lparr>inv_block := Some bp\<rparr>) c1;
           c3 = updInv (baseAddr b) (\<lambda>rc. rc\<lparr>newStatus := newSt\<rparr>) c2
       in issueInvalidateAddr disp ev src (baseAddr b) direction cancelable c3)"

definition ackInvalidate :: "Dispatcher \<Rightarrow> MemEvent \<Rightarrow> Cache \<Rightarrow> error + Cache" where
  "ackInvalidate disp ev c0 =
     (let a = ev_addr ev;
          c = touchInv a c0
      in if ev_responseTo ev = issuingEvent (getInv c a) \<or> ev_src ev = name (cfg c) then
           (let remaining = waitingACKs (getInv c a) - 1;
                c1 = updInv a (\<lambda>rc. rc\<lparr>waitingACKs := remaining\<rparr>) c
            in if remaining < 0 then Inl AssertFailed
               else if remaining = 0 then finishIssueInvalidate disp a c1
               else Inr c1)
         else Inr c)"

section \<open>Loads\<close>

text \<open>
  Modelled from the spec: the constructor \<^verbatim>\<open>LoadInfo_t(addr)\<close> of the missing
  \<^verbatim>\<open>cache.h\<close>. The spec: a record is keyed by the base address, has no target block
  until one is assigned, an empty queue and no bus request in flight.
\<close>

definition newLoadInfo :: "Addr \<Rightarrow> LoadInfo" where
  "newLoadInfo a =
     \<lparr>li_addr = a, targetBlock = None, li_busEvent = None, initiatingEvent = (0, 0),
      loadDirection = SEND_DOWN, li_list = []\<rparr>"

definition setLoadInfo :: "nat \<Rightarrow> LoadInfo \<Rightarrow> Cache \<Rightarrow> Cache" where
  "setLoadInfo li l c = c\<lparr>loadInfos := (loadInfos c)(li \<mapsto> l)\<rparr>"

definition initLoad :: "MemEvent \<Rightarrow> SourceType \<Rightarrow> Cache \<Rightarrow> error + (nat \<times> bool) \<times> Cache" where
  "initLoad ev src c =
     (let blockAddr = addrToBlockAddr c (ev_addr ev)
      in case waitingLoads c blockAddr of
           Some li \<Rightarrow>
             bindE (derefLoadInfo c li) (\<lambda>l.
               if li_addr l = blockAddr then Inr ((li, False), c) else Inl AssertFailed)
         | None \<Rightarrow>
             (let li = next_li c
              in Inr ((li, True),
                      c\<lparr>next_li := Suc li,
                        loadInfos := (loadInfos c)(li \<mapsto> (newLoadInfo blockAddr)\<lparr>initiatingEvent := ev_id ev\<rparr>),
                        waitingLoads := (waitingLoads c)(blockAddr \<mapsto> li)\<rparr>)))"

definition loadElement :: "Cache \<Rightarrow> MemEvent \<Rightarrow> SourceType \<Rightarrow> LoadElement" where
  "loadElement c ev src = \<lparr>le_ev = Some ev, le_src = src, le_issueTime = now c\<rparr>"

definition loadBlock :: "Dispatcher \<Rightarrow> MemEvent \<Rightarrow> SourceType \<Rightarrow> Cache \<Rightarrow> error + Cache" where
  "loadBlock disp ev src c0 =
     bindE (initLoad ev src c0) (\<lambda>((li, initial), c).
       let reprocess = \<not> initial
       in bindE (derefLoadInfo c li) (\<lambda>l.
            if reprocess \<and> initiatingEvent l \<noteq> ev_id ev then
              Inr (setLoadInfo li (l\<lparr>li_list := li_list l @ [loadElement c ev src]\<rparr>) c)
            else
              bindE (findRow c (ev_addr ev)) (\<lambda>row.
                case getLRU c row of
                  None \<Rightarrow> Inr (addWaitingEvent row ev src c)
                | Some bp \<Rightarrow>
                    bindE (getBlock c bp) (\<lambda>b.
                      if cacheMode (cfg c) = INCLUSIVE \<and> status b \<noteq> INVALID then
                        issueInvalidateBlock disp ev src bp INVALID SEND_UP
                          (default_cancelable (cfg c)) c
                      else if status b = EXCLUSIVE then
                        writebackBlock bp INVALID (addWaitingEvent row ev src c)
                      else
                        (let b1 = (lock (activate c (ev_addr ev) b))\<lparr>loadInfo := Some li\<rparr>;
                             c1 = setBlock bp b1 c;
                             l1 = l\<lparr>loadDirection := SEND_DOWN, targetBlock := Some bp\<rparr>;
                             l2 = (if reprocess
                                   then l1\<lparr>li_list := loadElement c ev src # li_list l1\<rparr>
                                   else l1\<lparr>li_list := li_list l1 @ [loadElement c ev src]\<rparr>)
                         in Inr (emit (SelfSend 1 (FinishLoadBlock li (baseAddr b1) bp))
                                   (setLoadInfo li l2 c1)))))))"

definition requestDataEvent :: "CacheBlock \<Rightarrow> Cache \<Rightarrow> MemEvent \<times> Cache" where
  "requestDataEvent b c =
     (let (req, c') = newMemEvent c (baseAddr b) RequestData
      in (req\<lparr>ev_size := blocksize (cfg c)\<rparr>, c'))"

fun sendUpstreamRequests :: "CacheBlock \<Rightarrow> nat \<Rightarrow> nat \<Rightarrow> Cache \<Rightarrow> error + Cache" where
  "sendUpstreamRequests b i 0 c = Inr c"
| "sendUpstreamRequests b i (Suc k) c =
     (if i < length (upstream_links (cfg c)) then
        (let (req, c') = requestDataEvent b c
         in sendUpstreamRequests b (Suc i) k (emit (Send (UpstreamLink i) req) c'))
      else Inl OutOfBounds)"

definition requestOnBus :: "nat \<Rightarrow> LoadInfo \<Rightarrow> CacheBlock \<Rightarrow> Cache \<Rightarrow> Cache" where
  "requestOnBus li l b c =
     (let (req0, c1) = requestDataEvent b c;
          req = (if next_level_name (cfg c) \<noteq> NO_NEXT_LEVEL
                 then req0\<lparr>ev_dst := next_level_name (cfg c)\<rparr> else req0)
      in busRequest req (Some (FinishLoadBlockBus li)) None
           (setLoadInfo li (l\<lparr>li_busEvent := Some req\<rparr>) c1))"

definition finishLoadBlock :: "nat \<Rightarrow> Addr \<Rightarrow> BlockPtr \<Rightarrow> Cache \<Rightarrow> error + Cache" where
  "finishLoadBlock li a bp c =
     bindE (getBlock c bp) (\<lambda>block.
       bindE (if status block = DIRTY
              then bindE (derefLoadInfo c li) (\<lambda>l. Inr (loadDirection l = SEND_UP))
              else Inr False) (\<lambda>dirtyUp.
         if (\<not> dirtyUp \<and> status block \<noteq> ASSIGNED) \<or> baseAddr block \<noteq> a
            \<or> Some li \<noteq> loadInfo block
         then Inr c
         else
           bindE (derefLoadInfo c li) (\<lambda>l.
             if loadDirection l = SEND_UP then
               (if 0 < n_upstream (cfg c) \<and> \<not> isL1 c then
                  sendUpstreamRequests block 0 (n_upstream (cfg c)) c
                else if snoop_link (cfg c) then Inr (requestOnBus li l block c)
                else Inr c)
             else
               (if downstream_link (cfg c) then
                  (let (req, c') = requestDataEvent block c
                   in Inr (emit (Send DownstreamLink req) c'))
                else if directory_link (cfg c) then
                  (let (req, c') = requestDataEvent block c
                   in bindE (findTargetDirectory c' (baseAddr block)) (\<lambda>dst.
                        Inr (emit (Send DirectoryLink (req\<lparr>ev_dst := dst\<rparr>)) c')))
                else if snoop_link (cfg c) then Inr (requestOnBus li l block c)
                else Inr c))))"

section \<open>Links\<close>

text \<open>
  Sending on a link that is not configured uses a null pointer; an index past the
  array of upstream links is out of range. \<^verbatim>\<open>upstreamLinkMap[id]\<close> inserts the
  index 0 for a link id that it does not know.
\<close>

definition sendLink :: "LinkTarget \<Rightarrow> MemEvent \<Rightarrow> Cache \<Rightarrow> error + Cache" where
  "sendLink l ev c =
     (case l of
        DownstreamLink \<Rightarrow>
          if downstream_link (cfg c) then Inr (emit (Send l ev) c) else Inl NullDeref
      | DirectoryLink \<Rightarrow>
          if directory_link (cfg c) then Inr (emit (Send l ev) c) else Inl NullDeref
      | UpstreamLink i \<Rightarrow>
          if i < length (upstream_links (cfg c)) then Inr (emit (Send l ev) c)
          else Inl OutOfBounds)"

definition upstreamIndex :: "LinkId \<Rightarrow> Cache \<Rightarrow> nat \<times> Cache" where
  "upstreamIndex lid c =
     (case upstreamLinkMap c lid of
        Some i \<Rightarrow> (i, c)
      | None \<Rightarrow> (0, c\<lparr>upstreamLinkMap := (upstreamLinkMap c)(lid \<mapsto> 0)\<rparr>))"

section \<open>Statistics\<close>

definition bump_supply_hit :: "Cache \<Rightarrow> Cache" where
  "bump_supply_hit c = c\<lparr>stats := (stats c)\<lparr>num_supply_hit := num_supply_hit (stats c) + 1\<rparr>\<rparr>"

definition bump_supply_miss :: "Cache \<Rightarrow> Cache" where
  "bump_supply_miss c = c\<lparr>stats := (stats c)\<lparr>num_supply_miss := num_supply_miss (stats c) + 1\<rparr>\<rparr>"

definition bump_read_hit :: "Cache \<Rightarrow> Cache" where
  "bump_read_hit c = c\<lparr>stats := (stats c)\<lparr>num_read_hit := num_read_hit (stats c) + 1\<rparr>\<rparr>"

definition bump_read_miss :: "Cache \<Rightarrow> Cache" where
  "bump_read_miss c = c\<lparr>stats := (stats c)\<lparr>num_read_miss := num_read_miss (stats c) + 1\<rparr>\<rparr>"

definition bump_write_hit :: "Cache \<Rightarrow> Cache" where
  "bump_write_hit c = c\<lparr>stats := (stats c)\<lparr>num_write_hit := num_write_hit (stats c) + 1\<rparr>\<rparr>"

definition bump_write_miss :: "Cache \<Rightarrow> Cache" where
  "bump_write_miss c = c\<lparr>stats := (stats c)\<lparr>num_write_miss := num_write_miss (stats c) + 1\<rparr>\<rparr>"

definition bump_upgrade_miss :: "Cache \<Rightarrow> Cache" where
  "bump_upgrade_miss c = c\<lparr>stats := (stats c)\<lparr>num_upgrade_miss := num_upgrade_miss (stats c) + 1\<rparr>\<rparr>"

section \<open>Requests from peers and the supply\<close>

definition supplyActive :: "Cache \<Rightarrow> Addr \<times> SourceType \<Rightarrow> bool" where
  "supplyActive c k = (case supplyInProgress c k of None \<Rightarrow> False | Some si \<Rightarrow> \<not> canceled si)"

definition handleCacheRequestEvent ::
  "Dispatcher \<Rightarrow> MemEvent \<Rightarrow> SourceType \<Rightarrow> bool \<Rightarrow> Cache \<Rightarrow> error + Cache" where
  "handleCacheRequestEvent disp ev src firstProcess c =
     (if src = SNOOP \<and> ev_src ev = name (cfg c) then Inr c
      else
        bindE (findBlock c (ev_addr ev) False) (\<lambda>block.
          if ev_size ev \<noteq> blocksize (cfg c) then Inl Abort
          else
            case block of
              Some bp \<Rightarrow>
                bindE (getBlock c bp) (\<lambda>b.
                  if status b = DIRTY then
                    (if src = SNOOP then Inr c else Inl AssertFailed)
                  else
                    (let c1 = (if firstProcess
                               then bump_supply_hit (emit (NotifyAccess READ HIT (ev_addr ev)) c)
                               else c);
                         supplyMapKey = (baseAddr b, src)
                     in if supplyActive c1 supplyMapKey then Inr c1
                        else if waitingForInvalidate c1 (baseAddr b) then
                          Inr (updInv (baseAddr b)
                                 (\<lambda>rc. rc\<lparr>waitingEvents := waitingEvents rc @ [(ev, src)]\<rparr>) c1)
                        else if wb_in_progress b then Inr c1
                        else
                          (let c2 = c1\<lparr>supplyInProgress := (supplyInProgress c1)
                                        (supplyMapKey \<mapsto> \<lparr>sup_busEvent = None, canceled = False\<rparr>)\<rparr>;
                               c3 = setBlock bp ((lock b)\<lparr>last_touched := now c2\<rparr>) c2
                           in Inr (emit (SelfSend 1 (SupplyDataEvent ev bp src)) c3))))
            | None \<Rightarrow>
                if src = DOWNSTREAM then Inr c
                else if src \<noteq> SNOOP \<or> ev_dst ev = name (cfg c) then
                  loadBlock disp ev src
                    (if firstProcess
                     then bump_supply_miss (emit (NotifyAccess READ MISS (ev_addr ev)) c)
                     else c)
                else Inr c))"

text \<open>
  \<^verbatim>\<open>supplyData\<close> sets the Writeback flag on the request \<^verbatim>\<open>ev\<close>, not on the
  response, when the block is Exclusive; the request is deleted at the end of the function,
  so the flag is seen by nobody and the model leaves it out.
\<close>

definition eraseSupply :: "Addr \<times> SourceType \<Rightarrow> Cache \<Rightarrow> Cache" where
  "eraseSupply k c = c\<lparr>supplyInProgress := (supplyInProgress c)(k := None)\<rparr>"

definition supplyData :: "MemEvent \<Rightarrow> BlockPtr \<Rightarrow> SourceType \<Rightarrow> Cache \<Rightarrow> error + Cache" where
  "supplyData ev bp src c =
     bindE (getBlock c bp) (\<lambda>b0.
       let supplyMapKey = (baseAddr b0, src)
       in case supplyInProgress c supplyMapKey of
            None \<Rightarrow> Inl AssertFailed
          | Some si \<Rightarrow>
              (let b1 = unlock b0;
                   c1 = setBlock bp b1 c
               in if canceled si then Inr (eraseSupply supplyMapKey c1)
                  else
                    (let (resp0, c2) = newMemEvent c1 (baseAddr b1) SupplyData;
                         delayed = (user_locked b1 \<noteq> 0);
                         b2 = (if delayed then b1\<lparr>user_lock_needs_wb := True\<rparr> else b1);
                         resp = (if delayed
                                 then (setFlag F_DELAYED resp0)\<lparr>ev_size := blocksize (cfg c)\<rparr>
                                 else setPayload (data b1) resp0);
                         c3 = setBlock bp b2 c2
                     in case src of
                          DOWNSTREAM \<Rightarrow>
                            bindE (sendLink DownstreamLink resp c3) (\<lambda>c4.
                              let c5 = eraseSupply supplyMapKey c4
                              in if \<not> queryFlag resp F_DELAYED
                                 then Inr (setBlock bp (b2\<lparr>status := SHARED\<rparr>) c5)
                                 else Inr c5)
                        | SNOOP \<Rightarrow>
                            (let isFakeSupply = queryFlag resp F_DELAYED;
                                 c4 = c3\<lparr>supplyInProgress := (supplyInProgress c3)
                                            (supplyMapKey \<mapsto> si\<lparr>sup_busEvent := Some resp\<rparr>)\<rparr>
                             in Inr (busRequest resp
                                       (Some (FinishBusSupplyData bp src isFakeSupply))
                                       (Some (PrepBusSupplyData bp src isFakeSupply)) c4))
                        | DIRECTORY \<Rightarrow>
                            bindE (sendLink DirectoryLink resp c3) (\<lambda>c4.
                              let c5 = eraseSupply supplyMapKey c4
                              in if queryFlag resp F_DELAYED then Inl AssertFailed
                                 else Inr (setBlock bp (b2\<lparr>status := SHARED\<rparr>) c5))
                        | UPSTREAM \<Rightarrow>
                            (let (i, c4) = upstreamIndex (ev_linkId ev) c3
                             in bindE (sendLink (UpstreamLink i) resp c4) (\<lambda>c5.
                                  Inr (eraseSupply supplyMapKey c5)))
                        | _ \<Rightarrow> Inr c3)))"

section \<open>Requests from the CPU\<close>

definition touchBlock :: "BlockPtr \<Rightarrow> Cache \<Rightarrow> error + Cache" where
  "touchBlock bp c = bindE (getBlock c bp) (\<lambda>b. Inr (setBlock bp (b\<lparr>last_touched := now c\<rparr>) c))"

definition respondToCPU :: "MemEvent \<Rightarrow> BlockPtr \<Rightarrow> Cache \<Rightarrow> error + Cache" where
  "respondToCPU ev bp c =
     bindE (makeCPUResponse ev bp UPSTREAM c) (\<lambda>(resp, c').
       Inr (emit (SelfSend 1 (SendCPUResponse resp bp UPSTREAM)) c'))"

definition queueBehindInvalidate :: "Addr \<Rightarrow> MemEvent \<Rightarrow> SourceType \<Rightarrow> Cache \<Rightarrow> Cache" where
  "queueBehindInvalidate a ev src c =
     updInv a (\<lambda>rc. rc\<lparr>waitingEvents := waitingEvents rc @ [(ev, src)]\<rparr>) c"

definition handleCPURequest :: "Dispatcher \<Rightarrow> MemEvent \<Rightarrow> bool \<Rightarrow> Cache \<Rightarrow> error + Cache" where
  "handleCPURequest disp ev firstProcess c0 =
     (let c = c0\<lparr>isL1 := True\<rparr>
      in if \<not> (ev_cmd ev = ReadReq \<or> ev_cmd ev = WriteReq) then Inl AssertFailed
         else
           (let isRead = (ev_cmd ev = ReadReq)
            in bindE (findBlock c (ev_addr ev) False) (\<lambda>block.
                 let c1 = (if firstProcess
                           then emit (NotifyAccess (if isRead then READ else WRITE)
                                        (if block \<noteq> None then HIT else MISS) (ev_addr ev)) c
                           else c)
                 in bindE (if queryFlag ev F_LOCKED \<and> \<not> isRead then
                             bindE (derefBlock c1 block) (\<lambda>b.
                               if status b = EXCLUSIVE then Inr () else Inl AssertFailed)
                           else Inr ()) (\<lambda>_.
                      case block of
                        Some bp \<Rightarrow>
                          bindE (getBlock c1 bp) (\<lambda>b.
                            if isRead then
                              (let c2 = (if firstProcess then bump_read_hit c1 else c1)
                               in if waitingForInvalidate c2 (baseAddr b) then
                                    touchBlock bp (queueBehindInvalidate (baseAddr b) ev UPSTREAM c2)
                                  else if queryFlag ev F_LOCKED \<and> status b \<noteq> EXCLUSIVE then
                                    bindE (issueInvalidateBlock disp ev UPSTREAM bp EXCLUSIVE SEND_BOTH
                                             (default_cancelable (cfg c2)) c2) (touchBlock bp)
                                  else if queryFlag ev F_LOCKED then
                                    (if wb_in_progress b \<or> supplyActive c2 (baseAddr b, SNOOP) then
                                       Inr (emit (SelfSend 1 (RetryEvent ev (Some bp) UPSTREAM)) c2)
                                     else
                                       bindE (respondToCPU ev bp
                                                (setBlock bp (b\<lparr>user_locked := user_locked b + 1,
                                                                user_lock_needs_wb := False\<rparr>) c2))
                                         (touchBlock bp))
                                  else bindE (respondToCPU ev bp c2) (touchBlock bp))
                            else if status b = EXCLUSIVE then
                              (let c2 = (if firstProcess then bump_write_hit c1 else c1)
                               in bindE (updateBlock ev bp c2) (\<lambda>c3.
                                    bindE (respondToCPU ev bp c3) (\<lambda>c4.
                                      bindE (getBlock c4 bp) (\<lambda>b4.
                                        bindE (if user_locked b4 \<noteq> 0 \<and> queryFlag ev F_LOCKED then
                                                 (let b5 = b4\<lparr>user_locked := user_locked b4 - 1\<rparr>;
                                                      c5 = setBlock bp b5 c4
                                                  in if user_locked b5 = 0 \<and> user_lock_needs_wb b5
                                                     then writebackBlock bp SHARED c5
                                                     else Inr c5)
                                               else Inr c4) (touchBlock bp)))))
                            else
                              (let c2 = (if firstProcess then bump_upgrade_miss c1 else c1)
                               in if waitingForInvalidate c2 (baseAddr b) then
                                    touchBlock bp (queueBehindInvalidate (baseAddr b) ev UPSTREAM c2)
                                  else
                                    bindE (issueInvalidateBlock disp ev UPSTREAM bp EXCLUSIVE SEND_BOTH
                                             (default_cancelable (cfg c2)) c2) (touchBlock bp)))
                      | None \<Rightarrow>
                          loadBlock disp ev UPSTREAM
                            (if firstProcess
                             then (if isRead then bump_read_miss c1 else bump_write_miss c1)
                             else c1)))))"

section \<open>Fills and writebacks from peers\<close>

text \<open>
  Two iterations in \<^verbatim>\<open>handleCacheSupplyEvent\<close> have no evident bound: the scan over the
  blocks that a snooped supply covers advances a 64-bit address that may wrap around, and
  the replay of the entries queued on a load reads the queue again at every step while the
  dispatcher that it calls may append to it. A run that does not return is \<open>None\<close>.
\<close>

definition bindP ::
  "(error + 'a) option \<Rightarrow> ('a \<Rightarrow> (error + 'b) option) \<Rightarrow> (error + 'b) option" where
  "bindP m f = (case m of None \<Rightarrow> None | Some (Inl e) \<Rightarrow> Some (Inl e) | Some (Inr x) \<Rightarrow> f x)"

definition cancelSupply :: "Addr \<times> SourceType \<Rightarrow> Cache \<Rightarrow> Cache" where
  "cancelSupply k c =
     (case supplyInProgress c k of
        None \<Rightarrow> c
      | Some si \<Rightarrow>
          (let si1 = si\<lparr>canceled := True\<rparr>
           in case sup_busEvent si1 of
                None \<Rightarrow> c\<lparr>supplyInProgress := (supplyInProgress c)(k \<mapsto> si1)\<rparr>
              | Some be \<Rightarrow>
                  (let (handlers, c') = busCancelRequest be c;
                       si2 = (if fst handlers \<noteq> None then si1\<lparr>sup_busEvent := None\<rparr> else si1)
                   in c'\<lparr>supplyInProgress := (supplyInProgress c')(k \<mapsto> si2)\<rparr>)))"

definition assertNotExclusive :: "Cache \<Rightarrow> BlockPtr option \<Rightarrow> error + unit" where
  "assertNotExclusive c p =
     (case p of
        None \<Rightarrow> Inr ()
      | Some bp \<Rightarrow>
          bindE (getBlock c bp) (\<lambda>b. if status b \<noteq> EXCLUSIVE then Inr () else Inl AssertFailed))"

partial_function (option) cancelSupplies ::
  "Addr \<Rightarrow> Addr \<Rightarrow> SourceType \<Rightarrow> Cache \<Rightarrow> (error + Cache) option" where
  "cancelSupplies blkAddr limit src c =
     (if blkAddr < limit then
        (case bindE (findBlock c blkAddr (default_emptyOK (cfg c))) (assertNotExclusive c) of
           Inl e \<Rightarrow> Some (Inl e)
         | Inr u \<Rightarrow>
             cancelSupplies (blkAddr + ucast (blocksize (cfg c))) limit src
               (cancelSupply (blkAddr, src) c))
      else Some (Inr c))"

partial_function (option) replayLoads ::
  "Dispatcher \<Rightarrow> nat \<Rightarrow> SourceType \<Rightarrow> nat \<Rightarrow> Cache \<Rightarrow> (error + Cache) option" where
  "replayLoads disp li src n c =
     (case loadInfos c li of
        None \<Rightarrow> Some (Inl NullDeref)
      | Some l \<Rightarrow>
          if n < length (li_list l) then
            (if src = SNOOP \<and> le_src (li_list l ! n) = SNOOP then
               replayLoads disp li src (Suc n) c
             else
               (case le_ev (li_list l ! n) of
                  None \<Rightarrow> replayLoads disp li src (Suc n) c
                | Some e \<Rightarrow>
                    (case disp e (le_src (li_list l ! n)) False True c of
                       Inl x \<Rightarrow> Some (Inl x)
                     | Inr c' \<Rightarrow> replayLoads disp li src (Suc n) c')))
          else Some (Inr c))"

definition cancelLoadBus :: "nat \<Rightarrow> LoadInfo \<Rightarrow> Cache \<Rightarrow> Cache" where
  "cancelLoadBus li l c =
     (case li_busEvent l of
        None \<Rightarrow> c
      | Some be \<Rightarrow> setLoadInfo li (l\<lparr>li_busEvent := None\<rparr>) (snd (busCancelRequest be c)))"

definition eraseLoad :: "Addr \<Rightarrow> nat \<Rightarrow> Cache \<Rightarrow> Cache" where
  "eraseLoad a li c =
     c\<lparr>waitingLoads := (waitingLoads c)(a := None), loadInfos := (loadInfos c)(li := None)\<rparr>"

definition purgeSnoop :: "SourceType \<Rightarrow> LoadElement \<Rightarrow> LoadElement" where
  "purgeSnoop src oldEV =
     (if src = SNOOP \<and> le_src oldEV = SNOOP then oldEV\<lparr>le_ev := None\<rparr> else oldEV)"

definition delayedFill ::
  "MemEvent \<Rightarrow> SourceType \<Rightarrow> nat \<Rightarrow> BlockPtr \<Rightarrow> Cache \<Rightarrow> error + Cache" where
  "delayedFill ev src li tb c =
     bindE (derefLoadInfo c li) (\<lambda>l.
       let deleted = length (filter (\<lambda>oldEV. src = SNOOP \<and> le_src oldEV = SNOOP) (li_list l));
           l1 = l\<lparr>li_list := map (purgeSnoop src) (li_list l)\<rparr>;
           c1 = setLoadInfo li l1 c
       in if deleted = length (li_list l1) then
            bindE (getBlock c1 tb) (\<lambda>b.
              let b1 = b\<lparr>loadInfo := None\<rparr>;
                  b2 = (if isAssigned b1 then b1\<lparr>status := INVALID\<rparr> else b1)
              in Inr (setBlock tb (unlock b2) (eraseLoad (ev_addr ev) li c1)))
          else Inr c1)"

definition fillBlock ::
  "Dispatcher \<Rightarrow> MemEvent \<Rightarrow> SourceType \<Rightarrow> nat \<Rightarrow> BlockPtr \<Rightarrow> Cache \<Rightarrow> (error + Cache) option" where
  "fillBlock disp ev src li tb c =
     bindP (Some (updateBlock ev tb c)) (\<lambda>c1.
       bindP (Some (getBlock c1 tb)) (\<lambda>b.
         bindP (replayLoads disp li src 0
                  (setBlock tb (unlock (b\<lparr>loadInfo := None, status := SHARED\<rparr>)) c1)) (\<lambda>c2.
           Some (Inr (eraseLoad (ev_addr ev) li c2)))))"

definition unmatchedSupply :: "MemEvent \<Rightarrow> SourceType \<Rightarrow> Cache \<Rightarrow> error + Cache" where
  "unmatchedSupply ev src c =
     bindE (if cacheMode (cfg c) = INCLUSIVE then
              bindE (findBlock c (ev_addr ev) False) (\<lambda>block.
                case block of
                  None \<Rightarrow> Inl AssertFailed
                | Some bp \<Rightarrow>
                    bindE (getBlock c bp) (\<lambda>b.
                      if status b = DIRTY \<or> src = SNOOP then
                        bindE (updateBlock ev bp c) (\<lambda>c1.
                          bindE (getBlock c1 bp) (\<lambda>b1.
                            Inr (setBlock bp (b1\<lparr>status := SHARED\<rparr>) c1)))
                      else Inl AssertFailed))
            else Inr c) (\<lambda>c1.
       if src = SNOOP then
         (if ev_dst ev = name (cfg c1) then Inr c1
          else if downstream_link (cfg c1) \<and> queryFlag ev F_WRITEBACK then
            Inr (emit (Send DownstreamLink ev) c1)
          else if directory_link (cfg c1) \<and> queryFlag ev F_WRITEBACK then
            Inr (emit (Send DirectoryLink (ev\<lparr>ev_src := name (cfg c1)\<rparr>)) c1)
          else Inr c1)
       else if src = UPSTREAM then
         (if \<not> queryFlag ev F_WRITEBACK then Inl AssertFailed
          else if downstream_link (cfg c1) then Inr (emit (Send DownstreamLink ev) c1)
          else if directory_link (cfg c1) then
            Inr (emit (Send DirectoryLink (ev\<lparr>ev_src := name (cfg c1)\<rparr>)) c1)
          else Inl Abort)
       else Inr c1)"

definition cancelSnoopedSupplies ::
  "MemEvent \<Rightarrow> SourceType \<Rightarrow> Cache \<Rightarrow> (error + Cache) option" where
  "cancelSnoopedSupplies ev src c =
     (if src = SNOOP \<and> blocksize (cfg c) \<le> ev_size ev
      then cancelSupplies (addrToBlockAddr c (ev_addr ev)) (ev_addr ev + ucast (ev_size ev)) src c
      else Some (Inr c))"

definition handleCacheSupplyEvent ::
  "Dispatcher \<Rightarrow> MemEvent \<Rightarrow> SourceType \<Rightarrow> Cache \<Rightarrow> (error + Cache) option" where
  "handleCacheSupplyEvent disp ev src c0 =
     (if src = SNOOP \<and> ev_src ev = name (cfg c0) then Some (Inr c0)
      else
        bindP (cancelSnoopedSupplies ev src c0) (\<lambda>c.
          case waitingLoads c (ev_addr ev) of
            Some li \<Rightarrow>
              bindP (Some (derefLoadInfo c li)) (\<lambda>l.
                let c1 = cancelLoadBus li l c
                in case targetBlock l of
                     None \<Rightarrow> if src = SNOOP then Some (Inr c1) else Some (Inl AssertFailed)
                   | Some tb \<Rightarrow>
                       bindP (if queryFlag ev F_DELAYED then Some (delayedFill ev src li tb c1)
                              else fillBlock disp ev src li tb c1) (\<lambda>c2.
                         Some (bindE (getBlock c2 tb) (\<lambda>b.
                                 bindE (findRow c2 (baseAddr b)) (\<lambda>row.
                                   handlePendingEvents row (Some tb) c2)))))
          | None \<Rightarrow> Some (unmatchedSupply ev src c)))"

section \<open>The statements of the specification\<close>

text \<open>
  The rule that the specification intends for \<^verbatim>\<open>finishLoadBlock\<close>: proceed only
  if the block is Assigned, or Dirty while the load fetches upward, and the block still
  belongs to this load.
\<close>

definition spec_load_proceeds :: "CacheBlock \<Rightarrow> LoadInfo \<Rightarrow> nat \<Rightarrow> Addr \<Rightarrow> bool" where
  "spec_load_proceeds b l li a =
     ((status b = ASSIGNED \<or> (status b = DIRTY \<and> loadDirection l = SEND_UP)) \<and>
      baseAddr b = a \<and> loadInfo b = Some li)"

text \<open>
  The replay after an invalidation as the specification describes it: the queued entries
  in their order of arrival, the first of them with \<open>first_phase_complete\<close> set and no
  other.
\<close>

definition spec_first_flags :: "'a list \<Rightarrow> ('a \<times> bool) list" where
  "spec_first_flags q = zip q (True # replicate (length q - 1) False)"

fun spec_replay ::
  "Dispatcher \<Rightarrow> ((MemEvent \<times> SourceType) \<times> bool) list \<Rightarrow> Cache \<Rightarrow> error + Cache" where
  "spec_replay disp [] c = Inr c"
| "spec_replay disp (x # rest) c =
     bindE (disp (fst (fst x)) (snd (fst x)) False (snd x) c) (spec_replay disp rest)"

text \<open>
  The replay after a fill, over the queue as it stands when the fill arrives: an entry
  that came over the snoop bus is dropped when the fill came over the snoop bus too, an
  entry whose event was purged before is passed over, and every other entry goes to the
  dispatcher, in the order of the queue. \<open>replay_keeps_load\<close> says of such a run that no
  call of the dispatcher touches the record of the load.
\<close>

fun spec_fill_replay :: "Dispatcher \<Rightarrow> SourceType \<Rightarrow> LoadElement list \<Rightarrow> Cache \<Rightarrow> error + Cache" where
  "spec_fill_replay disp src [] c = Inr c"
| "spec_fill_replay disp src (x # xs) c =
     (if src = SNOOP \<and> le_src x = SNOOP then spec_fill_replay disp src xs c
      else
        (case le_ev x of
           None \<Rightarrow> spec_fill_replay disp src xs c
         | Some e \<Rightarrow>
             (case disp e (le_src x) False True c of
                Inl err \<Rightarrow> Inl err
              | Inr c' \<Rightarrow> spec_fill_replay disp src xs c')))"

fun replay_keeps_load :: "Dispatcher \<Rightarrow> nat \<Rightarrow> SourceType \<Rightarrow> LoadElement list \<Rightarrow> Cache \<Rightarrow> bool" where
  "replay_keeps_load disp li src [] c = True"
| "replay_keeps_load disp li src (x # xs) c =
     (if src = SNOOP \<and> le_src x = SNOOP then replay_keeps_load disp li src xs c
      else
        (case le_ev x of
           None \<Rightarrow> replay_keeps_load disp li src xs c
         | Some e \<Rightarrow>
             (case disp e (le_src x) False True c of
                Inl err \<Rightarrow> True
              | Inr c' \<Rightarrow> loadInfos c' li = loadInfos c li \<and> replay_keeps_load disp li src xs c')))"

section \<open>A small configuration\<close>

text \<open>
  Two dispatchers to run the handlers with. The first passes every event over, as the
  default branch of \<^verbatim>\<open>handleIncomingEvent\<close> does. The second is one level of the
  dispatcher: the requests of the CPU and of the peers go to their handlers, every other
  command is passed over.
\<close>

definition dispatchDefault :: Dispatcher where
  "dispatchDefault ev src firstTimeProcessed firstPhaseComplete c = Inr c"

definition dispatchOnce :: Dispatcher where
  "dispatchOnce ev src firstTimeProcessed firstPhaseComplete c =
     (case ev_cmd ev of
        ReadReq \<Rightarrow> handleCPURequest dispatchDefault ev firstTimeProcessed c
      | WriteReq \<Rightarrow> handleCPURequest dispatchDefault ev firstTimeProcessed c
      | RequestData \<Rightarrow> handleCacheRequestEvent dispatchDefault ev src firstTimeProcessed c
      | _ \<Rightarrow> Inr c)"

text \<open>
  A cache of two rows and two ways with blocks of four bytes, one upstream link and a
  downstream link, and the events and records of the examples.
\<close>

definition sample_cfg :: Config where
  "sample_cfg =
     \<lparr>name = ''L2'', n_ways = 2, n_rows = 2, blocksize = 4, cacheMode = STANDARD,
      n_upstream = 1, upstream_links = [7], next_level_name = ''NONE'',
      downstream_link = True, snoop_link = False, directory_link = False,
      rowshift = 2, rowmask = 1, tagshift = 3,
      directories =
        [\<lparr>ci_name = ''dirA'', rangeStart = 0, rangeEnd = 100, interleaveSize = 4, interleaveStep = 8\<rparr>,
         \<lparr>ci_name = ''dirB'', rangeStart = 0, rangeEnd = 1000, interleaveSize = 0, interleaveStep = 0\<rparr>],
      default_cancelable = True, default_emptyOK = False\<rparr>"

definition sample_block :: CacheBlock where
  "sample_block =
     \<lparr>tag = 0, baseAddr = 0, last_touched = 0, status = INVALID, data = [0, 0, 0, 0],
      locked = 0, loadInfo = None, wb_in_progress = False, user_lock_needs_wb = False,
      user_locked = 0\<rparr>"

definition sample_row :: CacheRow where
  "sample_row = \<lparr>blocks = [sample_block, sample_block], row_waitingEvents = []\<rparr>"

definition sample_cache :: Cache where
  "sample_cache =
     \<lparr>cfg = sample_cfg,
      stats = \<lparr>num_read_hit = 0, num_read_miss = 0, num_supply_hit = 0, num_supply_miss = 0,
               num_write_hit = 0, num_write_miss = 0, num_upgrade_miss = 0\<rparr>,
      isL1 = False, database = [sample_row, sample_row], waitingLoads = Map.empty,
      loadInfos = Map.empty, next_li = 0, invalidations = Map.empty,
      supplyInProgress = Map.empty, upstreamLinkMap = [7 \<mapsto> 0], snoopBusQueue = [],
      now = 5, next_event_id = 100, out = []\<rparr>"

definition sample_event :: MemEvent where
  "sample_event =
     \<lparr>ev_id = (1, 0), ev_responseTo = (0, 0), ev_cmd = ReadReq, ev_src = ''cpu'',
      ev_dst = ''L2'', ev_addr = 0, ev_size = 4, ev_flags = {}, ev_payload = [],
      ev_linkId = 7\<rparr>"

definition sample_request :: MemEvent where
  "sample_request = sample_event\<lparr>ev_cmd := RequestData, ev_src := ''L1b'', ev_addr := 8\<rparr>"

definition sample_write :: MemEvent where
  "sample_write = sample_event\<lparr>ev_cmd := WriteReq, ev_addr := 16, ev_size := 1, ev_payload := [9]\<rparr>"

definition sample_ack :: MemEvent where
  "sample_ack = sample_event\<lparr>ev_cmd := ACK, ev_src := ''L1a'', ev_addr := 8, ev_responseTo := (50, 0)\<rparr>"

definition sample_fill :: MemEvent where
  "sample_fill =
     sample_event\<lparr>ev_id := (77, 0), ev_cmd := SupplyData, ev_src := ''mem'', ev_addr := 8,
                  ev_payload := [5, 6, 7, 8]\<rparr>"

definition sample_block8 :: CacheBlock where
  "sample_block8 =
     sample_block\<lparr>tag := 1, baseAddr := 8, last_touched := 3, status := SHARED,
                  data := [1, 2, 3, 4]\<rparr>"

definition sample_locked_block :: CacheBlock where
  "sample_locked_block = sample_block8\<lparr>status := EXCLUSIVE, locked := 1, user_locked := 1\<rparr>"

definition sample_with :: "CacheBlock \<Rightarrow> Cache" where
  "sample_with b =
     sample_cache\<lparr>database := [sample_row\<lparr>blocks := [b, sample_block]\<rparr>, sample_row]\<rparr>"

definition sample_load :: LoadInfo where
  "sample_load =
     \<lparr>li_addr = 8, targetBlock = Some (0, 0), li_busEvent = None, initiatingEvent = (1, 0),
      loadDirection = SEND_DOWN,
      li_list = [\<lparr>le_ev = Some (sample_event\<lparr>ev_addr := 9, ev_size := 2\<rparr>), le_src = UPSTREAM,
                  le_issueTime = 5\<rparr>]\<rparr>"

definition sample_supply :: "CacheBlock \<Rightarrow> SourceType \<Rightarrow> Cache" where
  "sample_supply b src =
     (sample_with b)\<lparr>supplyInProgress :=
        [(baseAddr b, src) \<mapsto> \<lparr>sup_busEvent = None, canceled = False\<rparr>]\<rparr>"

definition sample_invalidation :: Invalidation where
  "sample_invalidation =
     \<lparr>waitingACKs = 1, waitingEvents = [(sample_event, UPSTREAM), (sample_request, SNOOP)],
      inv_busEvent = None, issuingEvent = (50, 0), inv_block = Some (0, 0),
      newStatus = EXCLUSIVE, canCancel = True\<rparr>"

definition sample_invalidating :: "Invalidation \<Rightarrow> Cache" where
  "sample_invalidating i =
     (sample_with (sample_block8\<lparr>locked := 1\<rparr>))\<lparr>invalidations := [8 \<mapsto> i]\<rparr>"

definition sample_cpu_entry :: LoadElement where
  "sample_cpu_entry =
     \<lparr>le_ev = Some (sample_event\<lparr>ev_addr := 9, ev_size := 2\<rparr>), le_src = UPSTREAM, le_issueTime = 4\<rparr>"

definition sample_snoop_entry :: LoadElement where
  "sample_snoop_entry = \<lparr>le_ev = Some sample_request, le_src = SNOOP, le_issueTime = 4\<rparr>"

definition sample_loading :: "LoadElement list \<Rightarrow> Cache" where
  "sample_loading q =
     (sample_with (sample_block8\<lparr>status := ASSIGNED, locked := 1, loadInfo := Some 0\<rparr>))
       \<lparr>waitingLoads := [8 \<mapsto> 0], loadInfos := [0 \<mapsto> sample_load\<lparr>li_list := q\<rparr>], next_li := 1\<rparr>"

text \<open>
  The peer list of the example with an interleaved first peer whose step is zero.
\<close>

definition sample_zero_step :: Cache where
  "sample_zero_step =
     sample_cache\<lparr>cfg := sample_cfg\<lparr>directories :=
       [\<lparr>ci_name = ''dirA'', rangeStart = 0, rangeEnd = 100, interleaveSize = 4, interleaveStep = 0\<rparr>,
        \<lparr>ci_name = ''dirB'', rangeStart = 0, rangeEnd = 1000, interleaveSize = 0, interleaveStep = 0\<rparr>]\<rparr>\<rparr>"

text \<open>
  The block that a load of address \<^verbatim>\<open>0x7FFFFFFFC\<close> leaves in row 1 (its tag and its
  base address are those of \<^verbatim>\<open>addrToTag\<close> and \<^verbatim>\<open>addrToBlockAddr\<close>), and a read
  of the CPU at the top of the address space.
\<close>

definition sample_high_block :: CacheBlock where
  "sample_high_block =
     sample_block\<lparr>tag := 0xFFFFFFFF, baseAddr := 0xFFFFFFFC, last_touched := 3, status := SHARED,
                  data := [1, 2, 3, 4]\<rparr>"

definition sample_high :: Cache where
  "sample_high =
     sample_cache\<lparr>database := [sample_row, sample_row\<lparr>blocks := [sample_high_block, sample_block]\<rparr>]\<rparr>"

definition sample_wrap_read :: MemEvent where
  "sample_wrap_read = sample_event\<lparr>ev_addr := 0xFFFFFFFFFFFFFFFF, ev_size := 0xFFFFFFFD\<rparr>"

text \<open>
  A request of a peer for the block at 8 that is not the event that began the load of
  \<^verbatim>\<open>sample_loading\<close>.
\<close>

definition sample_second_request :: MemEvent where
  "sample_second_request = sample_request\<lparr>ev_id := (2, 0)\<rparr>"

section \<open>Properties\<close>

subsection \<open>Auxiliary facts\<close>

lemma bindE_simps [simp]:
  "bindE (Inl e) f = Inl e" "bindE (Inr x) f = f x"
  by (simp_all add: bindE_def)

lemma unat_ucast_32_64: "unat (ucast (x :: 32 word) :: 64 word) = unat x"
  apply (simp add: unsigned_ucast_eq)
  apply (rule take_bit_nat_eq_self)
  using unsigned_less[of x, where 'a=nat] apply simp
  done

lemma word_sum_no_wrap:
  fixes off :: "64 word" and sz bs :: "32 word"
  assumes "unat off + unat sz < 2 ^ 64"
  shows "(ucast bs < off + ucast sz) = (unat bs < unat off + unat sz)"
proof -
  have "unat (off + ucast sz) = unat off + unat sz"
    using assms by (simp add: unat_word_ariths unat_ucast_32_64)
  then show ?thesis by (simp add: word_less_nat_alt unat_ucast_32_64)
qed

lemma getBlock_sample_with [simp]: "getBlock (sample_with b) (0, 0) = Inr b"
  by (simp add: getBlock_def sample_with_def sample_row_def)

lemma sample_with_cfg [simp]: "cfg (sample_with b) = sample_cfg"
  by (simp add: sample_with_def sample_cache_def)

lemma scanDirectories_first_match:
  "\<forall>d\<in>set dirs. rangeStart d \<le> a \<and> a < rangeEnd d \<and> interleaveSize d \<noteq> 0 \<longrightarrow>
      interleaveStep d \<noteq> 0 \<Longrightarrow>
   scanDirectories dirs a =
     (case find (spec_directory_matches a) dirs of
        Some d \<Rightarrow> Inr (ci_name d) | None \<Rightarrow> Inl Abort)"
  by (induction dirs) (auto simp: spec_directory_matches_def Let_def)

lemma getBlock_sample_supply [simp]: "getBlock (sample_supply b src) (0, 0) = Inr b"
  by (simp add: getBlock_def sample_supply_def sample_with_def sample_row_def)

lemma replayWaiting_not_first:
  "replayWaiting disp q False c = spec_replay disp (zip q (replicate (length q) False)) c"
  by (induction q arbitrary: c) (auto simp: bindE_def split: sum.splits)

lemma replayWaiting_spec:
  "replayWaiting disp q True c = spec_replay disp (spec_first_flags q) c"
  by (cases q) (auto simp: spec_first_flags_def replayWaiting_not_first bindE_def split: sum.splits)

lemma setBlock_invalidations:
  "setBlock bp b (c\<lparr>invalidations := m\<rparr>) = (setBlock bp b c)\<lparr>invalidations := m\<rparr>"
  by (simp add: setBlock_def)

lemma getBlock_invalidations [simp]: "getBlock (c\<lparr>invalidations := m\<rparr>) bp = getBlock c bp"
  by (simp add: getBlock_def)

lemma findBlock_invalidations [simp]:
  "findBlock (c\<lparr>invalidations := m\<rparr>) a e = findBlock c a e"
  by (simp add: findBlock_def findRow_def addrToTag_def Let_def)

lemma findBlock_sample: "findBlock (sample_with sample_block8) 9 False = Inr (Some (0, 0))"
  by code_simp

lemma findBlock_isL1 [simp]: "findBlock (c\<lparr>isL1 := x\<rparr>) a e = findBlock c a e"
  by (simp add: findBlock_def findRow_def addrToTag_def Let_def)

lemma getBlock_isL1 [simp]: "getBlock (c\<lparr>isL1 := x\<rparr>) bp = getBlock c bp"
  by (simp add: getBlock_def)

lemma getBlock_emit [simp]: "getBlock (emit a c) bp = getBlock c bp"
  by (simp add: getBlock_def emit_def)

lemma findBlock_sample_miss: "findBlock (sample_with sample_block8) 16 False = Inr None"
  by code_simp

lemma findBlock_sample_dirty:
  "findBlock (sample_with (sample_block8\<lparr>status := DIRTY\<rparr>)) 8 False = Inr (Some (0, 0))"
  by code_simp

lemma loadBlock_sample_out:
  "out (projr (loadBlock dispatchDefault (sample_request\<lparr>ev_addr := 16\<rparr>) UPSTREAM
                   (bump_supply_miss (emit (NotifyAccess READ MISS 16) (sample_with sample_block8))))) =
   [NotifyAccess READ MISS 16, SelfSend 1 (FinishLoadBlock 0 16 (0, 1))]"
  by code_simp

lemma findBlock_sample_write_miss:
  "findBlock (sample_with sample_block8) (ev_addr (setFlag F_LOCKED sample_write)) False = Inr None"
  "findBlock (sample_with sample_block8) (ev_addr sample_write) False = Inr None"
  by code_simp+

lemma findBlock_sample_write_hit:
  "findBlock (sample_with sample_block8)
     (ev_addr (setFlag F_LOCKED (sample_write\<lparr>ev_addr := 9\<rparr>))) False = Inr (Some (0, 0))"
  by code_simp

lemma loadBlock_sample_write_out:
  "out (projr (loadBlock dispatchDefault sample_write UPSTREAM
     (bump_write_miss (emit (NotifyAccess WRITE MISS (ev_addr sample_write))
        ((sample_with sample_block8)\<lparr>isL1 := True\<rparr>))))) =
   [NotifyAccess WRITE MISS 16, SelfSend 1 (FinishLoadBlock 0 16 (0, 1))]"
  by code_simp

lemma replayLoads_spec:
  assumes "loadInfos c li = Some l"
      and "replay_keeps_load disp li src (drop n (li_list l)) c"
  shows "replayLoads disp li src n c = Some (spec_fill_replay disp src (drop n (li_list l)) c)"
  using assms
proof (induction k \<equiv> "length (li_list l) - n" arbitrary: n c)
  case 0
  then have "drop n (li_list l) = []" by simp
  moreover have "\<not> n < length (li_list l)" using 0 by simp
  ultimately show ?case
    using 0 by (subst replayLoads.simps) simp
next
  case (Suc k)
  then have lt: "n < length (li_list l)" by simp
  then have dr: "drop n (li_list l) = li_list l ! n # drop (Suc n) (li_list l)"
    by (simp add: Cons_nth_drop_Suc)
  have k: "k = length (li_list l) - Suc n" using Suc by simp
  show ?case
  proof (cases "src = SNOOP \<and> le_src (li_list l ! n) = SNOOP")
    case True
    with Suc.prems dr have "replay_keeps_load disp li src (drop (Suc n) (li_list l)) c" by simp
    from Suc.hyps(1) [OF k Suc.prems(1) this] True lt dr Suc.prems(1)
    show ?thesis by (subst replayLoads.simps) simp
  next
    case False
    note ns = this
    show ?thesis
    proof (cases "le_ev (li_list l ! n)")
      case None
      with Suc.prems dr ns have "replay_keeps_load disp li src (drop (Suc n) (li_list l)) c" by auto
      from Suc.hyps(1) [OF k Suc.prems(1) this] None ns lt dr Suc.prems(1)
      show ?thesis by (subst replayLoads.simps) auto
    next
      case (Some e)
      show ?thesis
      proof (cases "disp e (le_src (li_list l ! n)) False True c")
        case (Inl x)
        with Some ns lt dr Suc.prems(1) show ?thesis
          by (subst replayLoads.simps) auto
      next
        case (Inr c')
        with Suc.prems dr ns Some
        have kp: "loadInfos c' li = Some l"
          and kr: "replay_keeps_load disp li src (drop (Suc n) (li_list l)) c'"
          by auto
        from Suc.hyps(1) [OF k kp kr] Inr Some ns lt dr Suc.prems(1)
        show ?thesis by (subst replayLoads.simps) auto
      qed
    qed
  qed
qed

lemma bindP_Some_Some: "bindP (Some r) (\<lambda>x. Some (g x)) = Some (bindE r g)"
  by (cases r) (simp_all add: bindP_def)

lemma bindP_Inr [simp]: "bindP (Some (Inr x)) f = f x"
  by (simp add: bindP_def)

lemma updateBlock_frame:
  assumes "updateBlock ev tb c = Inr c1"
  shows "loadInfos c1 = loadInfos c \<and> snoopBusQueue c1 = snoopBusQueue c \<and>
         waitingLoads c1 = waitingLoads c \<and> cfg c1 = cfg c"
  using assms
  by (auto simp: updateBlock_def bindE_def setBlock_def split: sum.splits if_splits)

lemma updateBlock_full:
  assumes "updateBlock ev tb c = Inr c1" and "getBlock c tb = Inr b0"
      and "ev_size ev = blocksize (cfg c)"
  shows "getBlock c1 tb = Inr (b0\<lparr>data := ev_payload ev @ drop (length (ev_payload ev)) (data b0),
                                   last_touched := now c\<rparr>)"
  using assms
  by (auto simp: updateBlock_def getBlock_def setBlock_def split: if_splits)

lemma cancelLoadBus_facts:
  "getBlock (cancelLoadBus li l c) bp = getBlock c bp"
  "cfg (cancelLoadBus li l c) = cfg c"
  "waitingLoads (cancelLoadBus li l c) = waitingLoads c"
  "li_busEvent l = None \<Longrightarrow> cancelLoadBus li l c = c"
  "li_busEvent l = Some be \<Longrightarrow>
     snoopBusQueue (cancelLoadBus li l c) = snd (removeRequest be (snoopBusQueue c)) \<and>
     loadInfos (cancelLoadBus li l c) = (loadInfos c)(li \<mapsto> l\<lparr>li_busEvent := None\<rparr>)"
  by (auto simp: cancelLoadBus_def busCancelRequest_def setLoadInfo_def getBlock_def
        split: option.splits prod.splits)

lemma setBlock_loadInfos [simp]: "loadInfos (setBlock bp b c) = loadInfos c"
  by (simp add: setBlock_def)

lemma handleCacheSupplyEvent_fill_run:
  assumes notOwn: "\<not> (src = SNOOP \<and> ev_src ev = name (cfg c0))"
      and scan: "cancelSnoopedSupplies ev src c0 = Some (Inr c)"
      and wl: "waitingLoads c (ev_addr ev) = Some li"
      and ld: "loadInfos c li = Some l"
      and tg: "targetBlock l = Some tb"
      and nd: "\<not> queryFlag ev F_DELAYED"
      and up: "updateBlock ev tb (cancelLoadBus li l c) = Inr c1"
      and gb: "getBlock c1 tb = Inr b"
      and keep: "replay_keeps_load disp li src (li_list l)
                   (setBlock tb (unlock (b\<lparr>loadInfo := None, status := SHARED\<rparr>)) c1)"
  shows "handleCacheSupplyEvent disp ev src c0 =
           Some (bindE (spec_fill_replay disp src (li_list l)
                          (setBlock tb (unlock (b\<lparr>loadInfo := None, status := SHARED\<rparr>)) c1))
                   (\<lambda>c3. bindE (getBlock (eraseLoad (ev_addr ev) li c3) tb) (\<lambda>b'.
                      bindE (findRow (eraseLoad (ev_addr ev) li c3) (baseAddr b')) (\<lambda>row.
                        handlePendingEvents row (Some tb) (eraseLoad (ev_addr ev) li c3)))))"
proof -
  let ?c' = "cancelLoadBus li l c"
  let ?c2 = "setBlock tb (unlock (b\<lparr>loadInfo := None, status := SHARED\<rparr>)) c1"
  define l' where "l' = (case li_busEvent l of None \<Rightarrow> l | Some be \<Rightarrow> l\<lparr>li_busEvent := None\<rparr>)"
  have ll: "li_list l' = li_list l" by (simp add: l'_def split: option.splits)
  have fr: "loadInfos c1 = loadInfos ?c'" "snoopBusQueue c1 = snoopBusQueue ?c'"
    using updateBlock_frame [OF up] by simp_all
  have l1: "loadInfos ?c' li = Some l'"
    using ld cancelLoadBus_facts(4) [where l = l and li = li and c = c]
      cancelLoadBus_facts(5) [where l = l and li = li and c = c]
    by (cases "li_busEvent l") (auto simp: l'_def)
  have l2: "loadInfos ?c2 li = Some l'" using l1 fr by simp
  have rp: "replayLoads disp li src 0 ?c2 = Some (spec_fill_replay disp src (li_list l) ?c2)"
    using replayLoads_spec [OF l2, of disp src 0] keep ll by simp
  have fb: "fillBlock disp ev src li tb ?c' =
              Some (bindE (spec_fill_replay disp src (li_list l) ?c2)
                      (\<lambda>c3. Inr (eraseLoad (ev_addr ev) li c3)))"
    using up gb rp by (simp add: fillBlock_def bindP_Some_Some)
  have "handleCacheSupplyEvent disp ev src c0 =
          bindP (fillBlock disp ev src li tb ?c') (\<lambda>c2.
             Some (bindE (getBlock c2 tb) (\<lambda>b.
                     bindE (findRow c2 (baseAddr b)) (\<lambda>row.
                       handlePendingEvents row (Some tb) c2))))"
    using notOwn scan wl ld tg nd
    by (auto simp add: handleCacheSupplyEvent_def derefLoadInfo_def Let_def)
  also have "\<dots> = Some (bindE (bindE (spec_fill_replay disp src (li_list l) ?c2)
                    (\<lambda>c3. Inr (eraseLoad (ev_addr ev) li c3)))
               (\<lambda>c2. bindE (getBlock c2 tb) (\<lambda>b.
                     bindE (findRow c2 (baseAddr b)) (\<lambda>row.
                       handlePendingEvents row (Some tb) c2))))"
    unfolding fb by (rule bindP_Some_Some)
  also have "\<dots> = Some (bindE (spec_fill_replay disp src (li_list l) ?c2)
                 (\<lambda>c3. bindE (getBlock (eraseLoad (ev_addr ev) li c3) tb) (\<lambda>b'.
                    bindE (findRow (eraseLoad (ev_addr ev) li c3) (baseAddr b')) (\<lambda>row.
                      handlePendingEvents row (Some tb) (eraseLoad (ev_addr ev) li c3)))))"
    by (cases "spec_fill_replay disp src (li_list l) ?c2") simp_all
  finally show ?thesis .
qed

lemma sum_collapse_Inr: "\<not> isl x \<Longrightarrow> x = Inr (projr x)"
  by (cases x) simp_all

lemma sample_fill_scan:
  "cancelSnoopedSupplies sample_fill SNOOP (sample_loading [sample_cpu_entry, sample_snoop_entry]) =
     Some (Inr (sample_loading [sample_cpu_entry, sample_snoop_entry]))"
proof -
  let ?c = "sample_loading [sample_cpu_entry, sample_snoop_entry]"
  have a0: "blocksize (cfg ?c) \<le> ev_size sample_fill"
    by (simp add: sample_loading_def sample_fill_def sample_event_def sample_cfg_def)
  have a1: "addrToBlockAddr ?c (ev_addr sample_fill) = 8" by code_simp
  have a2: "ev_addr sample_fill + ucast (ev_size sample_fill) = 12"
    by (simp add: sample_fill_def sample_event_def)
  have a3: "bindE (findBlock ?c 8 (default_emptyOK (cfg ?c))) (assertNotExclusive ?c) = Inr ()"
    by code_simp
  have a4: "cancelSupply (8, SNOOP) ?c = ?c"
    by (simp add: cancelSupply_def sample_loading_def sample_with_def sample_cache_def)
  have a5: "(8::64 word) + ucast (blocksize (cfg ?c)) = 12"
    by (simp add: sample_loading_def sample_cfg_def)
  have "cancelSupplies 8 12 SNOOP ?c = Some (Inr ?c)"
    apply (subst cancelSupplies.simps)
    apply (simp add: a3 a4 a5)
    apply (subst cancelSupplies.simps)
    apply simp
    done
  then show ?thesis using a0 by (simp add: cancelSnoopedSupplies_def a1 a2)
qed

text \<open>
  The scan over the blocks that a snooped supply covers returns, whatever it finds, when
  the block size is not zero and the end of the range is a block size away from the top
  of the address space, so that the address that it advances does not wrap around.
\<close>

lemma cancelSupply_cfg [simp]: "cfg (cancelSupply k c) = cfg c"
  by (auto simp: cancelSupply_def busCancelRequest_def Let_def split: option.splits prod.splits)

lemma cancelSupplies_returns:
  assumes "blocksize (cfg c) \<noteq> 0"
      and "unat limit + unat (blocksize (cfg c)) < 2 ^ 64"
  shows "\<exists>r. cancelSupplies a limit src c = Some r"
  using assms
proof (induction k \<equiv> "unat limit - unat a" arbitrary: a c rule: less_induct)
  case less
  show ?case
  proof (cases "a < limit")
    case False
    then show ?thesis by (subst cancelSupplies.simps) simp
  next
    case True
    then have al: "unat a < unat limit" by (simp add: word_less_nat_alt)
    have bs: "0 < unat (blocksize (cfg c))" using less.prems(1) by (simp add: unat_gt_0)
    have ub: "unat (ucast (blocksize (cfg c)) :: 64 word) = unat (blocksize (cfg c))"
      by (rule unat_ucast_32_64)
    have "unat (a + ucast (blocksize (cfg c))) = unat a + unat (blocksize (cfg c))"
      using al less.prems(2) ub by (simp add: unat_word_ariths)
    then have dec: "unat limit - unat (a + ucast (blocksize (cfg c))) < unat limit - unat a"
      using al bs by simp
    show ?thesis
    proof (cases "bindE (findBlock c a (default_emptyOK (cfg c))) (assertNotExclusive c)")
      case (Inl e)
      with True show ?thesis by (subst cancelSupplies.simps) simp
    next
      case (Inr u)
      from less.hyps [OF dec, of "cancelSupply (a, src) c"] less.prems
      obtain r where "cancelSupplies (a + ucast (blocksize (cfg c))) limit src
                        (cancelSupply (a, src) c) = Some r"
        by auto
      with True Inr show ?thesis by (subst cancelSupplies.simps) simp
    qed
  qed
qed

text \<open>
  As long as the offset of the request from the base of the block plus its size stays
  below \<open>2 ^ 64\<close>, \<^verbatim>\<open>makeCPUResponse\<close> aborts exactly when that sum exceeds the block
  size, and the response to a \<^verbatim>\<open>ReadReq\<close> carries the bytes of the block from the
  offset, as many as the request asks for.
\<close>

lemma makeCPUResponse_fits:
  assumes blk: "getBlock c bp = Inr b"
      and nowrap: "unat (ev_addr ev - baseAddr b) + unat (ev_size ev) < 2 ^ 64"
      and len: "length (data b) = unat (blocksize (cfg c))"
  shows "(makeCPUResponse ev bp src c = Inl Abort) =
           (unat (blocksize (cfg c)) < unat (ev_addr ev - baseAddr b) + unat (ev_size ev)) \<and>
         (isl (makeCPUResponse ev bp src c)) =
           (unat (blocksize (cfg c)) < unat (ev_addr ev - baseAddr b) + unat (ev_size ev)) \<and>
         (\<not> unat (blocksize (cfg c)) < unat (ev_addr ev - baseAddr b) + unat (ev_size ev) \<and>
          ev_cmd ev = ReadReq \<longrightarrow>
            (\<exists>resp c'. makeCPUResponse ev bp src c = Inr (resp, c') \<and>
               ev_payload resp =
                 take (unat (ev_size ev)) (drop (unat (ev_addr ev - baseAddr b)) (data b)) \<and>
               ev_size resp = ev_size ev \<and> ev_responseTo resp = ev_id ev))"
  using blk len word_sum_no_wrap [OF nowrap, of "blocksize (cfg c)"]
  by (auto simp: makeCPUResponse_def Let_def makeResponse_def newMemEvent_def split: prod.splits)

lemma sample_high_tag:
  "addrToTag sample_high 0x7FFFFFFFC = tag sample_high_block \<and>
   addrToBlockAddr sample_high 0x7FFFFFFFC = baseAddr sample_high_block"
  by (simp add: addrToTag_def addrToBlockAddr_def sample_high_def sample_high_block_def
        sample_cache_def sample_cfg_def)

lemma findBlock_sample_high:
  "findBlock sample_high (ev_addr sample_wrap_read) False = Inr (Some (1, 0))"
  by code_simp

lemma getBlock_sample_high: "getBlock sample_high (Suc 0, 0) = Inr sample_high_block"
  by (simp add: getBlock_def sample_high_def sample_cache_def sample_row_def)

lemma sample_wrap_offset:
  "ev_addr sample_wrap_read - baseAddr sample_high_block = 0xFFFFFFFF00000003"
  by (simp add: sample_wrap_read_def sample_high_block_def)

lemma sample_high_cfg [simp]: "cfg sample_high = sample_cfg"
  by (simp add: sample_high_def sample_cache_def)

lemma sample_wrap_exceeds:
  "unat (blocksize (cfg sample_high))
     < unat (ev_addr sample_wrap_read - baseAddr sample_high_block) + unat (ev_size sample_wrap_read)"
  by (simp add: sample_wrap_offset) (simp add: sample_wrap_read_def sample_cfg_def)

lemma getBlock_stats [simp]: "getBlock (c\<lparr>stats := x\<rparr>) bp = getBlock c bp"
  by (simp add: getBlock_def)

lemma makeCPUResponse_sample_wrap:
  assumes "getBlock c (Suc 0, 0) = Inr sample_high_block" and "cfg c = sample_cfg"
  shows "makeCPUResponse sample_wrap_read (Suc 0, 0) src c = Inl OutOfBounds"
proof -
  have s: "ev_size sample_wrap_read = 0xFFFFFFFD" "ev_cmd sample_wrap_read = ReadReq"
    by (simp_all add: sample_wrap_read_def sample_event_def)
  have d: "length (data sample_high_block) = 4" by (simp add: sample_high_block_def)
  show ?thesis
    by (simp add: makeCPUResponse_def assms sample_wrap_offset s d Let_def sample_cfg_def
          split: prod.splits)
qed

lemma makeCPUResponse_sample_wrap_write:
  "\<not> isl (makeCPUResponse (sample_wrap_read\<lparr>ev_cmd := WriteReq\<rparr>) (Suc 0, 0) UPSTREAM sample_high)"
proof -
  have s: "ev_size sample_wrap_read = 0xFFFFFFFD"
    by (simp add: sample_wrap_read_def sample_event_def)
  show ?thesis
    using sample_wrap_offset
    by (simp add: makeCPUResponse_def getBlock_sample_high s Let_def sample_cfg_def
          split: prod.splits)
qed

lemma handleCPURequest_sample_wrap:
  "handleCPURequest dispatchDefault sample_wrap_read True sample_high = Inl OutOfBounds"
proof -
  have f: "findBlock sample_high (ev_addr sample_wrap_read) False = Inr (Some (Suc 0, 0))"
    using findBlock_sample_high by simp
  have s: "ev_cmd sample_wrap_read = ReadReq" "\<not> queryFlag sample_wrap_read F_LOCKED"
    by (simp_all add: sample_wrap_read_def sample_event_def queryFlag_def)
  have w: "\<not> waitingForInvalidate
             (bump_read_hit (emit (NotifyAccess READ HIT (ev_addr sample_wrap_read))
                (sample_high\<lparr>isL1 := True\<rparr>)))
             (baseAddr sample_high_block)"
    by (simp add: waitingForInvalidate_def bump_read_hit_def emit_def sample_high_def
          sample_cache_def)
  have m: "makeCPUResponse sample_wrap_read (Suc 0, 0) UPSTREAM
             (bump_read_hit (emit (NotifyAccess READ HIT (ev_addr sample_wrap_read))
                (sample_high\<lparr>isL1 := True\<rparr>)))
           = Inl OutOfBounds"
  proof (rule makeCPUResponse_sample_wrap)
    show "getBlock (bump_read_hit (emit (NotifyAccess READ HIT (ev_addr sample_wrap_read))
             (sample_high\<lparr>isL1 := True\<rparr>))) (Suc 0, 0) = Inr sample_high_block"
      by (simp add: bump_read_hit_def getBlock_sample_high)
    show "cfg (bump_read_hit (emit (NotifyAccess READ HIT (ev_addr sample_wrap_read))
             (sample_high\<lparr>isL1 := True\<rparr>))) = sample_cfg"
      by (simp add: bump_read_hit_def emit_def)
  qed
  show ?thesis
    by (simp add: handleCPURequest_def Let_def f s getBlock_sample_high w m respondToCPU_def)
qed

lemma findBlock_sample_false_hit:
  "findBlock (sample_with sample_block8) 0x800000009 False = Inr (Some (0, 0))"
  by code_simp

lemma makeCPUResponse_sample_false_hit:
  "makeCPUResponse (sample_event\<lparr>ev_addr := 0x800000009, ev_size := 1\<rparr>) (0, 0) UPSTREAM
     (sample_with sample_block8) = Inl Abort"
  by (simp add: makeCPUResponse_def Let_def sample_block8_def sample_cfg_def)

lemma getBlock_setBlock_same:
  "getBlock c bp = Inr b \<Longrightarrow> getBlock (setBlock bp b' c) bp = Inr b'"
  by (auto simp: getBlock_def setBlock_def split: if_splits)

lemma getBlock_loadInfos [simp]: "getBlock (c\<lparr>loadInfos := m\<rparr>) bp = getBlock c bp"
  by (simp add: getBlock_def)

text \<open>
  \<^verbatim>\<open>loadBlock\<close> on an address whose block has a load outstanding that another event
  began: the event joins the queue of that load and nothing else changes.
\<close>

lemma loadBlock_coalesce:
  assumes "waitingLoads c (addrToBlockAddr c (ev_addr ev)) = Some li"
      and "loadInfos c li = Some l"
      and "li_addr l = addrToBlockAddr c (ev_addr ev)"
      and "initiatingEvent l \<noteq> ev_id ev"
  shows "loadBlock disp ev src c =
           Inr (c\<lparr>loadInfos := (loadInfos c)(li \<mapsto> l\<lparr>li_list := li_list l @ [loadElement c ev src]\<rparr>)\<rparr>)"
  using assms by (simp add: loadBlock_def initLoad_def derefLoadInfo_def setLoadInfo_def Let_def)

text \<open>
  \<^verbatim>\<open>loadBlock\<close> on an address with no load outstanding, when the least recently used
  way of the row can be taken at once: a new record is registered, the way is assigned to
  the address and locked, and \<^verbatim>\<open>finishLoadBlock\<close> is scheduled.
\<close>

lemma loadBlock_fresh:
  assumes wl: "waitingLoads c (addrToBlockAddr c (ev_addr ev)) = None"
      and fr: "findRow c (ev_addr ev) = Inr row"
      and lru: "getLRU c row = Some bp"
      and gb: "getBlock c bp = Inr b"
      and ne: "status b \<noteq> EXCLUSIVE"
      and inc: "\<not> (cacheMode (cfg c) = INCLUSIVE \<and> status b \<noteq> INVALID)"
  shows "\<exists>c'. loadBlock disp ev src c = Inr c' \<and>
           waitingLoads c' = (waitingLoads c)(addrToBlockAddr c (ev_addr ev) \<mapsto> next_li c) \<and>
           loadInfos c' = (loadInfos c)(next_li c \<mapsto>
             \<lparr>li_addr = addrToBlockAddr c (ev_addr ev), targetBlock = Some bp, li_busEvent = None,
              initiatingEvent = ev_id ev, loadDirection = SEND_DOWN,
              li_list = [loadElement c ev src]\<rparr>) \<and>
           next_li c' = Suc (next_li c) \<and>
           getBlock c' bp = Inr (b\<lparr>tag := addrToTag c (ev_addr ev),
                                    baseAddr := addrToBlockAddr c (ev_addr ev),
                                    status := ASSIGNED, locked := locked b + 1,
                                    loadInfo := Some (next_li c)\<rparr>) \<and>
           out c' = out c @ [SelfSend 1 (FinishLoadBlock (next_li c) (addrToBlockAddr c (ev_addr ev)) bp)]"
proof -
  define ba where "ba = addrToBlockAddr c (ev_addr ev)"
  define cm where "cm = c\<lparr>next_li := Suc (next_li c),
      loadInfos := (loadInfos c)(next_li c \<mapsto> (newLoadInfo ba)\<lparr>initiatingEvent := ev_id ev\<rparr>),
      waitingLoads := (waitingLoads c)(ba \<mapsto> next_li c)\<rparr>"
  have il: "initLoad ev src c = Inr ((next_li c, True), cm)"
    using wl by (simp add: initLoad_def Let_def cm_def ba_def)
  have dl: "derefLoadInfo cm (next_li c) = Inr ((newLoadInfo ba)\<lparr>initiatingEvent := ev_id ev\<rparr>)"
    by (simp add: derefLoadInfo_def cm_def)
  have "findRow cm (ev_addr ev) = findRow c (ev_addr ev)" by (simp add: findRow_def cm_def Let_def)
  with fr have fr': "findRow cm (ev_addr ev) = Inr row" by simp
  have "getLRU cm row = getLRU c row" by (simp add: getLRU_def cm_def)
  with lru have lru': "getLRU cm row = Some bp" by simp
  have "getBlock cm bp = getBlock c bp" by (simp add: getBlock_def cm_def)
  with gb have gb': "getBlock cm bp = Inr b" by simp
  have cf: "cfg cm = cfg c" by (simp add: cm_def)
  have ab: "addrToBlockAddr cm a = addrToBlockAddr c a" "addrToTag cm a = addrToTag c a" for a
    by (simp_all add: addrToBlockAddr_def addrToTag_def cm_def)
  have le: "loadElement cm ev src = loadElement c ev src" by (simp add: loadElement_def cm_def)
  define B where "B = b\<lparr>tag := addrToTag c (ev_addr ev), baseAddr := ba, status := ASSIGNED,
                         locked := locked b + 1, loadInfo := Some (next_li c)\<rparr>"
  define L where "L = \<lparr>li_addr = ba, targetBlock = Some bp, li_busEvent = None,
              initiatingEvent = ev_id ev, loadDirection = SEND_DOWN,
              li_list = [loadElement c ev src]\<rparr>"
  define c' where "c' = emit (SelfSend 1 (FinishLoadBlock (next_li c) ba bp))
                          (setLoadInfo (next_li c) L (setBlock bp B cm))"
  have res: "loadBlock disp ev src c = Inr c'"
    using ne inc
    by (auto simp: loadBlock_def il dl fr' lru' gb' cf ab le Let_def activate_def lock_def
                   newLoadInfo_def c'_def B_def L_def ba_def)
  have gs: "getBlock (setBlock bp B cm) bp = Inr B"
    using gb' by (rule getBlock_setBlock_same)
  have g: "getBlock c' bp = Inr B"
    using gs by (simp add: c'_def setLoadInfo_def)
  have w: "waitingLoads c' = (waitingLoads c)(ba \<mapsto> next_li c)"
    by (simp add: c'_def emit_def setLoadInfo_def setBlock_def cm_def)
  have l: "loadInfos c' = (loadInfos c)(next_li c \<mapsto> L)"
    by (simp add: c'_def emit_def setLoadInfo_def setBlock_def cm_def)
  have n: "next_li c' = Suc (next_li c)"
    by (simp add: c'_def emit_def setLoadInfo_def setBlock_def cm_def)
  have ou: "out c' = out c @ [SelfSend 1 (FinishLoadBlock (next_li c) ba bp)]"
    by (simp add: c'_def emit_def setLoadInfo_def setBlock_def cm_def)
  from res g w l n ou show ?thesis
    unfolding B_def L_def ba_def by blast
qed

lemma sample_loading_cfg [simp]: "cfg (sample_loading q) = sample_cfg"
  by (simp add: sample_loading_def)

lemma findBlock_sample_loading: "findBlock (sample_loading q) 8 False = Inr None"
proof -
  have "findBlock (sample_loading q) 8 False =
        findBlock (sample_with (sample_block8\<lparr>status := ASSIGNED, locked := 1, loadInfo := Some 0\<rparr>)) 8 False"
    by (simp add: findBlock_def findRow_def addrToTag_def sample_loading_def Let_def)
  also have "\<dots> = Inr None" by code_simp
  finally show ?thesis .
qed

subsection \<open>Claims\<close>

text \<open>
  Claim C1. For a pending load, \<^verbatim>\<open>finishLoadBlock\<close> issues the fill request only when
  the block is Assigned, or Dirty with the load directed upward, and the block still has
  the address of the load and still points at this load; in every other case it returns
  with the state as it was, nothing sent and nothing queued on the bus. When the rule holds
  for a load directed downward and the downstream link exists, one request for the block
  goes out on it.
\<close>

theorem finishLoadBlock_sends_only_when_wanted:
  assumes blk: "getBlock c bp = Inr b" and li: "loadInfos c li = Some l"
  shows "(\<not> spec_load_proceeds b l li a \<longrightarrow> finishLoadBlock li a bp c = Inr c) \<and>
         (\<forall>c'. finishLoadBlock li a bp c = Inr c' \<and>
                (out c' \<noteq> out c \<or> snoopBusQueue c' \<noteq> snoopBusQueue c) \<longrightarrow>
                spec_load_proceeds b l li a) \<and>
         (spec_load_proceeds b l li a \<and> loadDirection l \<noteq> SEND_UP \<and> downstream_link (cfg c) \<longrightarrow>
            (\<exists>req c'. finishLoadBlock li a bp c = Inr c' \<and>
               out c' = out c @ [Send DownstreamLink req] \<and>
               ev_cmd req = RequestData \<and> ev_addr req = a \<and> ev_size req = blocksize (cfg c)))"
proof -
  have 1: "\<not> spec_load_proceeds b l li a \<Longrightarrow> finishLoadBlock li a bp c = Inr c"
    using blk li
    by (auto simp: finishLoadBlock_def spec_load_proceeds_def derefLoadInfo_def)
  have 3: "spec_load_proceeds b l li a \<and> loadDirection l \<noteq> SEND_UP \<and> downstream_link (cfg c) \<Longrightarrow>
            (\<exists>req c'. finishLoadBlock li a bp c = Inr c' \<and>
               out c' = out c @ [Send DownstreamLink req] \<and>
               ev_cmd req = RequestData \<and> ev_addr req = a \<and> ev_size req = blocksize (cfg c))"
    using blk li
    by (auto simp: finishLoadBlock_def spec_load_proceeds_def derefLoadInfo_def
          requestDataEvent_def newMemEvent_def emit_def)
  have 2: "\<forall>c'. finishLoadBlock li a bp c = Inr c' \<and>
                (out c' \<noteq> out c \<or> snoopBusQueue c' \<noteq> snoopBusQueue c) \<longrightarrow>
                spec_load_proceeds b l li a"
  proof (intro allI impI)
    fix c'
    assume h: "finishLoadBlock li a bp c = Inr c' \<and>
                (out c' \<noteq> out c \<or> snoopBusQueue c' \<noteq> snoopBusQueue c)"
    show "spec_load_proceeds b l li a"
    proof (rule ccontr)
      assume "\<not> spec_load_proceeds b l li a"
      then have "finishLoadBlock li a bp c = Inr c" by (rule 1)
      with h show False by auto
    qed
  qed
  from 1 2 3 show ?thesis by (intro conjI impI) simp_all
qed

theorem finishLoadBlock_sends_only_when_wanted_witness:
  "finishLoadBlock 0 8 (0, 0)
     ((sample_with (sample_block8\<lparr>loadInfo := Some 0\<rparr>))\<lparr>loadInfos := [0 \<mapsto> sample_load]\<rparr>) =
     Inr ((sample_with (sample_block8\<lparr>loadInfo := Some 0\<rparr>))\<lparr>loadInfos := [0 \<mapsto> sample_load]\<rparr>) \<and>
   (\<exists>req c'. finishLoadBlock 0 8 (0, 0)
       ((sample_with (sample_block8\<lparr>loadInfo := Some 0, status := ASSIGNED\<rparr>))
          \<lparr>loadInfos := [0 \<mapsto> sample_load]\<rparr>) = Inr c' \<and>
      out c' = [Send DownstreamLink req] \<and> ev_cmd req = RequestData \<and> ev_addr req = 8)"
proof -
  let ?b1 = "sample_block8\<lparr>loadInfo := Some 0\<rparr>"
  let ?b2 = "sample_block8\<lparr>loadInfo := Some 0, status := ASSIGNED\<rparr>"
  have g: "getBlock ((sample_with b)\<lparr>loadInfos := [0 \<mapsto> sample_load]\<rparr>) (0, 0) = Inr b" for b
    by (simp add: getBlock_def sample_with_def sample_row_def)
  have l: "loadInfos ((sample_with b)\<lparr>loadInfos := [0 \<mapsto> sample_load]\<rparr>) 0 = Some sample_load" for b
    by simp
  have n: "\<not> spec_load_proceeds ?b1 sample_load 0 8"
    by (simp add: spec_load_proceeds_def sample_block8_def sample_load_def)
  have y: "spec_load_proceeds ?b2 sample_load 0 8 \<and> loadDirection sample_load \<noteq> SEND_UP \<and>
           downstream_link (cfg ((sample_with ?b2)\<lparr>loadInfos := [0 \<mapsto> sample_load]\<rparr>))"
    by (simp add: spec_load_proceeds_def sample_block8_def sample_load_def sample_cfg_def)
  have o: "out ((sample_with b)\<lparr>loadInfos := [0 \<mapsto> sample_load]\<rparr>) = []" for b
    by (simp add: sample_with_def sample_cache_def)
  from finishLoadBlock_sends_only_when_wanted [OF g l, of ?b1 8] n
  have 1: "finishLoadBlock 0 8 (0, 0) ((sample_with ?b1)\<lparr>loadInfos := [0 \<mapsto> sample_load]\<rparr>) =
     Inr ((sample_with ?b1)\<lparr>loadInfos := [0 \<mapsto> sample_load]\<rparr>)"
    by blast
  from finishLoadBlock_sends_only_when_wanted [OF g l, of ?b2 8] y
  have "\<exists>req c'. finishLoadBlock 0 8 (0, 0) ((sample_with ?b2)\<lparr>loadInfos := [0 \<mapsto> sample_load]\<rparr>) = Inr c' \<and>
      out c' = out ((sample_with ?b2)\<lparr>loadInfos := [0 \<mapsto> sample_load]\<rparr>) @ [Send DownstreamLink req] \<and>
      ev_cmd req = RequestData \<and> ev_addr req = 8 \<and>
      ev_size req = blocksize (cfg ((sample_with ?b2)\<lparr>loadInfos := [0 \<mapsto> sample_load]\<rparr>))"
    by blast
  then have 2: "\<exists>req c'. finishLoadBlock 0 8 (0, 0) ((sample_with ?b2)\<lparr>loadInfos := [0 \<mapsto> sample_load]\<rparr>) = Inr c' \<and>
      out c' = [Send DownstreamLink req] \<and> ev_cmd req = RequestData \<and> ev_addr req = 8"
    unfolding o by auto
  from 1 2 show ?thesis by simp
qed

text \<open>
  Claim C2. For an outstanding invalidation record, an ACK that answers the issuing
  event of the record, or that comes from this cache itself, takes one from
  \<open>waitingACKs\<close>. When the count reaches zero the new status of the record is applied
  to its block, if it has one, and the block is unlocked; the record is erased; and the
  queued events are replayed through the dispatcher in their order of arrival, the first
  of them with \<open>first_phase_complete\<close> set and no other.
\<close>

theorem ackInvalidate_counts_and_replays:
  assumes rec: "invalidations c (ev_addr ack) = Some rcd"
      and mt: "ev_responseTo ack = issuingEvent rcd \<or> ev_src ack = name (cfg c)"
  shows "(1 < waitingACKs rcd \<longrightarrow>
            ackInvalidate disp ack c =
              Inr (c\<lparr>invalidations := (invalidations c)
                       (ev_addr ack \<mapsto> rcd\<lparr>waitingACKs := waitingACKs rcd - 1\<rparr>)\<rparr>)) \<and>
         (waitingACKs rcd = 1 \<and> inv_block rcd = None \<longrightarrow>
            ackInvalidate disp ack c =
              spec_replay disp (spec_first_flags (waitingEvents rcd))
                (c\<lparr>invalidations := (invalidations c)(ev_addr ack := None)\<rparr>)) \<and>
         (\<forall>bp b. waitingACKs rcd = 1 \<and> inv_block rcd = Some bp \<and> getBlock c bp = Inr b \<longrightarrow>
            ackInvalidate disp ack c =
              spec_replay disp (spec_first_flags (waitingEvents rcd))
                ((setBlock bp ((unlock b)\<lparr>status := newStatus rcd\<rparr>) c)
                   \<lparr>invalidations := (invalidations c)(ev_addr ack := None)\<rparr>))"
proof -
  have t: "touchInv (ev_addr ack) c = c" using rec by (simp add: touchInv_def)
  have g: "getInv c (ev_addr ack) = rcd" using rec by (simp add: getInv_def)
  have 1: "1 < waitingACKs rcd \<longrightarrow>
            ackInvalidate disp ack c =
              Inr (c\<lparr>invalidations := (invalidations c)
                       (ev_addr ack \<mapsto> rcd\<lparr>waitingACKs := waitingACKs rcd - 1\<rparr>)\<rparr>)"
    using mt by (auto simp: ackInvalidate_def Let_def t g updInv_def)
  have 2: "waitingACKs rcd = 1 \<and> inv_block rcd = None \<longrightarrow>
            ackInvalidate disp ack c =
              spec_replay disp (spec_first_flags (waitingEvents rcd))
                (c\<lparr>invalidations := (invalidations c)(ev_addr ack := None)\<rparr>)"
    using rec mt
    by (auto simp: ackInvalidate_def Let_def updInv_def finishIssueInvalidate_def
          touchInv_def getInv_def replayWaiting_spec)
  have 3: "\<forall>bp b. waitingACKs rcd = 1 \<and> inv_block rcd = Some bp \<and> getBlock c bp = Inr b \<longrightarrow>
            ackInvalidate disp ack c =
              spec_replay disp (spec_first_flags (waitingEvents rcd))
                ((setBlock bp ((unlock b)\<lparr>status := newStatus rcd\<rparr>) c)
                   \<lparr>invalidations := (invalidations c)(ev_addr ack := None)\<rparr>)"
    using rec mt
    by (auto simp: ackInvalidate_def Let_def updInv_def finishIssueInvalidate_def
          touchInv_def getInv_def replayWaiting_spec setBlock_invalidations)
  from 1 2 3 show ?thesis by blast
qed

theorem ackInvalidate_counts_and_replays_witness:
  "ackInvalidate dispatchDefault sample_ack
     (sample_invalidating (sample_invalidation\<lparr>waitingACKs := 2\<rparr>)) =
     Inr (sample_invalidating sample_invalidation) \<and>
   ackInvalidate dispatchDefault sample_ack (sample_invalidating sample_invalidation) =
     spec_replay dispatchDefault
       [((sample_event, UPSTREAM), True), ((sample_request, SNOOP), False)]
       (sample_with (sample_block8\<lparr>locked := 0, status := EXCLUSIVE\<rparr>))"
proof -
  have r: "invalidations (sample_invalidating i) (ev_addr sample_ack) = Some i" for i
    by (simp add: sample_invalidating_def sample_ack_def)
  have m: "ev_responseTo sample_ack = issuingEvent i \<or>
           ev_src sample_ack = name (cfg (sample_invalidating i))"
    if "issuingEvent i = (50, 0)" for i
    using that by (simp add: sample_ack_def)
  have i1: "issuingEvent sample_invalidation = (50, 0)"
    and i2: "issuingEvent (sample_invalidation\<lparr>waitingACKs := 2\<rparr>) = (50, 0)"
    by (simp_all add: sample_invalidation_def)
  have g: "getBlock (sample_invalidating i) (0, 0) = Inr (sample_block8\<lparr>locked := 1\<rparr>)" for i
    by (simp add: sample_invalidating_def)
  have e2: "(sample_invalidating (sample_invalidation\<lparr>waitingACKs := 2\<rparr>))
              \<lparr>invalidations := (invalidations (sample_invalidating (sample_invalidation\<lparr>waitingACKs := 2\<rparr>)))
                 (ev_addr sample_ack \<mapsto> (sample_invalidation\<lparr>waitingACKs := 2\<rparr>)
                    \<lparr>waitingACKs := waitingACKs (sample_invalidation\<lparr>waitingACKs := 2\<rparr>) - 1\<rparr>)\<rparr> =
            sample_invalidating sample_invalidation"
    by (simp add: sample_invalidating_def sample_ack_def sample_invalidation_def)
  have e1: "(setBlock (0, 0)
               ((unlock (sample_block8\<lparr>locked := 1\<rparr>))\<lparr>status := newStatus sample_invalidation\<rparr>)
               (sample_invalidating sample_invalidation))
              \<lparr>invalidations := (invalidations (sample_invalidating sample_invalidation))
                 (ev_addr sample_ack := None)\<rparr> =
            sample_with (sample_block8\<lparr>locked := 0, status := EXCLUSIVE\<rparr>)"
    by (simp add: sample_invalidating_def sample_ack_def sample_invalidation_def setBlock_def
          sample_with_def unlock_def sample_row_def sample_cache_def)
  have f: "spec_first_flags (waitingEvents sample_invalidation) =
             [((sample_event, UPSTREAM), True), ((sample_request, SNOOP), False)]"
    by (simp add: spec_first_flags_def sample_invalidation_def)
  have w2: "1 < waitingACKs (sample_invalidation\<lparr>waitingACKs := 2\<rparr>)" by simp
  have w1: "waitingACKs sample_invalidation = 1 \<and> inv_block sample_invalidation = Some (0, 0)"
    by (simp add: sample_invalidation_def)
  from ackInvalidate_counts_and_replays [OF r m [OF i2], of dispatchDefault] w2
  have a: "ackInvalidate dispatchDefault sample_ack
             (sample_invalidating (sample_invalidation\<lparr>waitingACKs := 2\<rparr>)) =
           Inr (sample_invalidating sample_invalidation)"
    unfolding e2 by blast
  from ackInvalidate_counts_and_replays [OF r m [OF i1], of dispatchDefault] w1 g
  have b: "ackInvalidate dispatchDefault sample_ack (sample_invalidating sample_invalidation) =
     spec_replay dispatchDefault (spec_first_flags (waitingEvents sample_invalidation))
       ((setBlock (0, 0)
               ((unlock (sample_block8\<lparr>locked := 1\<rparr>))\<lparr>status := newStatus sample_invalidation\<rparr>)
               (sample_invalidating sample_invalidation))
              \<lparr>invalidations := (invalidations (sample_invalidating sample_invalidation))
                 (ev_addr sample_ack := None)\<rparr>)"
    by blast
  from a b show ?thesis unfolding e1 f by simp
qed

text \<open>
  Claim C3, as amended. Take a \<^verbatim>\<open>SupplyData\<close> event that is not this cache's own send
  seen on the snoop bus, for which the scan that cancels the supplies in flight returns,
  whose address has an outstanding load with a target block, and that does not carry the
  Delayed flag. Then the bus request still pending for the load is cancelled, the payload
  is copied into the block, and the block becomes Shared, loses its link to the load and is
  unlocked. The queued entries are then taken in the order of the queue: an entry goes to
  the dispatcher, unless it came over the snoop bus and the fill came over the snoop bus
  too, in which case it is discarded, or its event was purged by an earlier Delayed fill.
  After the replay the load is erased and the events waiting on the row of the block are
  released. The replayed handlers are taken to leave the record of the load alone.
\<close>

theorem handleCacheSupplyEvent_fill:
  assumes notOwn: "\<not> (src = SNOOP \<and> ev_src ev = name (cfg c0))"
      and scan: "cancelSnoopedSupplies ev src c0 = Some (Inr c)"
      and wl: "waitingLoads c (ev_addr ev) = Some li"
      and ld: "loadInfos c li = Some l"
      and tg: "targetBlock l = Some tb"
      and nd: "\<not> queryFlag ev F_DELAYED"
      and up: "updateBlock ev tb (cancelLoadBus li l c) = Inr c1"
      and gb: "getBlock c1 tb = Inr b"
      and keep: "replay_keeps_load disp li src (li_list l)
                   (setBlock tb (unlock (b\<lparr>loadInfo := None, status := SHARED\<rparr>)) c1)"
  shows "handleCacheSupplyEvent disp ev src c0 =
           Some (bindE (spec_fill_replay disp src (li_list l)
                          (setBlock tb (unlock (b\<lparr>loadInfo := None, status := SHARED\<rparr>)) c1))
                   (\<lambda>c3. bindE (getBlock (eraseLoad (ev_addr ev) li c3) tb) (\<lambda>b'.
                      bindE (findRow (eraseLoad (ev_addr ev) li c3) (baseAddr b')) (\<lambda>row.
                        handlePendingEvents row (Some tb) (eraseLoad (ev_addr ev) li c3))))) \<and>
         (\<forall>be. li_busEvent l = Some be \<longrightarrow>
            snoopBusQueue c1 = snd (removeRequest be (snoopBusQueue c)) \<and>
            map_option li_busEvent (loadInfos c1 li) = Some None) \<and>
         (\<forall>b0. getBlock c tb = Inr b0 \<and> ev_size ev = blocksize (cfg c) \<longrightarrow>
            data b = ev_payload ev @ drop (length (ev_payload ev)) (data b0)) \<and>
         getBlock (setBlock tb (unlock (b\<lparr>loadInfo := None, status := SHARED\<rparr>)) c1) tb =
           Inr (b\<lparr>loadInfo := None, status := SHARED, locked := locked b - 1\<rparr>)"
proof -
  let ?c' = "cancelLoadBus li l c"
  let ?c2 = "setBlock tb (unlock (b\<lparr>loadInfo := None, status := SHARED\<rparr>)) c1"
  have fr: "loadInfos c1 = loadInfos ?c'" "snoopBusQueue c1 = snoopBusQueue ?c'"
    using updateBlock_frame [OF up] by simp_all
  note main = handleCacheSupplyEvent_fill_run [OF notOwn scan wl ld tg nd up gb keep]
  have bus: "\<forall>be. li_busEvent l = Some be \<longrightarrow>
            snoopBusQueue c1 = snd (removeRequest be (snoopBusQueue c)) \<and>
            map_option li_busEvent (loadInfos c1 li) = Some None"
    using fr cancelLoadBus_facts(5) [where l = l and li = li and c = c] by auto
  have pay: "\<forall>b0. getBlock c tb = Inr b0 \<and> ev_size ev = blocksize (cfg c) \<longrightarrow>
            data b = ev_payload ev @ drop (length (ev_payload ev)) (data b0)"
  proof (intro allI impI)
    fix b0 assume h: "getBlock c tb = Inr b0 \<and> ev_size ev = blocksize (cfg c)"
    then have "getBlock ?c' tb = Inr b0" "ev_size ev = blocksize (cfg ?c')"
      by (simp_all add: cancelLoadBus_facts)
    from updateBlock_full [OF up this] gb
    show "data b = ev_payload ev @ drop (length (ev_payload ev)) (data b0)" by auto
  qed
  have blk: "getBlock ?c2 tb = Inr (b\<lparr>loadInfo := None, status := SHARED, locked := locked b - 1\<rparr>)"
    using gb by (auto simp: getBlock_def setBlock_def unlock_def split: if_splits)
  from main bus pay blk show ?thesis by blast
qed

theorem handleCacheSupplyEvent_fill_witness:
  "map_option (map_sum (\<lambda>e. e) out)
     (handleCacheSupplyEvent dispatchOnce sample_fill SNOOP
        (sample_loading [sample_cpu_entry, sample_snoop_entry])) =
   Some (Inr [SelfSend 1
     (SendCPUResponse
        \<lparr>ev_id = (100, 0), ev_responseTo = (1, 0), ev_cmd = ReadResp, ev_src = ''L2'',
         ev_dst = ''cpu'', ev_addr = 9, ev_size = 2, ev_flags = {}, ev_payload = [6, 7],
         ev_linkId = 0\<rparr> (0, 0) UPSTREAM)])"
proof -
  let ?q = "[sample_cpu_entry, sample_snoop_entry]"
  let ?c = "sample_loading ?q"
  let ?l = "sample_load\<lparr>li_list := ?q\<rparr>"
  let ?u = "updateBlock sample_fill (0, 0) (cancelLoadBus 0 ?l ?c)"
  let ?g = "getBlock (projr ?u) (0, 0)"
  have own: "\<not> (SNOOP = SNOOP \<and> ev_src sample_fill = name (cfg ?c))"
    by (simp add: sample_fill_def sample_loading_def sample_cfg_def)
  have wl: "waitingLoads ?c (ev_addr sample_fill) = Some 0"
    by (simp add: sample_loading_def sample_fill_def)
  have ld: "loadInfos ?c 0 = Some ?l" by (simp add: sample_loading_def)
  have tg: "targetBlock ?l = Some (0, 0)" by (simp add: sample_load_def)
  have nd: "\<not> queryFlag sample_fill F_DELAYED"
    by (simp add: queryFlag_def sample_fill_def sample_event_def)
  have "\<not> isl ?u" by code_simp
  then have up: "?u = Inr (projr ?u)" by (rule sum_collapse_Inr)
  have "\<not> isl ?g" by code_simp
  then have gb: "?g = Inr (projr ?g)" by (rule sum_collapse_Inr)
  have keep: "replay_keeps_load dispatchOnce 0 SNOOP (li_list ?l)
                (setBlock (0, 0) (unlock ((projr ?g)\<lparr>loadInfo := None, status := SHARED\<rparr>)) (projr ?u))"
    by code_simp
  note t = handleCacheSupplyEvent_fill [OF own sample_fill_scan wl ld tg nd up gb keep, THEN conjunct1]
  show ?thesis unfolding t by code_simp
qed

text \<open>
  The claim as first stated drops the condition on the source of the fill: when the fill
  arrives from downstream, the entry queued from the snoop bus is replayed, and the cache
  schedules a supply for it. And a fill that this cache sent itself and sees on the snoop
  bus is passed over, whatever load is outstanding.
\<close>

theorem handleCacheSupplyEvent_fill_counterexample:
  "le_src sample_snoop_entry = SNOOP \<and> \<not> queryFlag sample_fill F_DELAYED \<and>
   waitingLoads (sample_loading [sample_snoop_entry]) (ev_addr sample_fill) = Some 0 \<and>
   map_option (map_sum (\<lambda>e. e) out)
     (handleCacheSupplyEvent dispatchOnce sample_fill DOWNSTREAM (sample_loading [sample_snoop_entry])) =
   Some (Inr [SelfSend 1 (SupplyDataEvent sample_request (0, 0) SNOOP)]) \<and>
   handleCacheSupplyEvent dispatchOnce (sample_fill\<lparr>ev_src := ''L2''\<rparr>) SNOOP
     (sample_loading [sample_snoop_entry]) = Some (Inr (sample_loading [sample_snoop_entry]))"
proof -
  let ?q = "[sample_snoop_entry]"
  let ?c = "sample_loading ?q"
  let ?l = "sample_load\<lparr>li_list := ?q\<rparr>"
  let ?u = "updateBlock sample_fill (0, 0) (cancelLoadBus 0 ?l ?c)"
  let ?g = "getBlock (projr ?u) (0, 0)"
  have own: "\<not> (DOWNSTREAM = SNOOP \<and> ev_src sample_fill = name (cfg ?c))" by simp
  have scan: "cancelSnoopedSupplies sample_fill DOWNSTREAM ?c = Some (Inr ?c)"
    by (simp add: cancelSnoopedSupplies_def)
  have wl: "waitingLoads ?c (ev_addr sample_fill) = Some 0"
    by (simp add: sample_loading_def sample_fill_def)
  have ld: "loadInfos ?c 0 = Some ?l" by (simp add: sample_loading_def)
  have tg: "targetBlock ?l = Some (0, 0)" by (simp add: sample_load_def)
  have nd: "\<not> queryFlag sample_fill F_DELAYED"
    by (simp add: queryFlag_def sample_fill_def sample_event_def)
  have "\<not> isl ?u" by code_simp
  then have up: "?u = Inr (projr ?u)" by (rule sum_collapse_Inr)
  have "\<not> isl ?g" by code_simp
  then have gb: "?g = Inr (projr ?g)" by (rule sum_collapse_Inr)
  have keep: "replay_keeps_load dispatchOnce 0 DOWNSTREAM (li_list ?l)
                (setBlock (0, 0) (unlock ((projr ?g)\<lparr>loadInfo := None, status := SHARED\<rparr>)) (projr ?u))"
    by code_simp
  note t = handleCacheSupplyEvent_fill_run [OF own scan wl ld tg nd up gb keep]
  have r: "map_option (map_sum (\<lambda>e. e) out)
     (handleCacheSupplyEvent dispatchOnce sample_fill DOWNSTREAM ?c) =
     Some (Inr [SelfSend 1 (SupplyDataEvent sample_request (0, 0) SNOOP)])"
    unfolding t by code_simp
  have s: "le_src sample_snoop_entry = SNOOP" by (simp add: sample_snoop_entry_def)
  have o: "handleCacheSupplyEvent dispatchOnce (sample_fill\<lparr>ev_src := ''L2''\<rparr>) SNOOP ?c =
             Some (Inr ?c)"
    by (simp add: handleCacheSupplyEvent_def sample_loading_def sample_cfg_def)
  from s nd wl r o show ?thesis by simp
qed

text \<open>
  Claim C4, as amended. \<^verbatim>\<open>findTargetDirectory\<close> returns the name of the first directory peer of
  the snapshot whose range contains the address and whose interleave size is zero or
  exceeds the offset of the address in the interleave step; peers that fail the test are
  skipped, and when no peer matches the function aborts. The offset is a remainder by the
  interleave step: the statement holds for every address such that each peer whose range
  contains it and whose interleave size is not zero has a step other than zero.
\<close>

theorem findTargetDirectory_first_match:
  assumes "\<forall>d\<in>set (directories (cfg c)).
             rangeStart d \<le> a \<and> a < rangeEnd d \<and> interleaveSize d \<noteq> 0 \<longrightarrow>
             interleaveStep d \<noteq> 0"
  shows "findTargetDirectory c a =
     (case find (spec_directory_matches a) (directories (cfg c)) of
        Some d \<Rightarrow> Inr (ci_name d) | None \<Rightarrow> Inl Abort)"
  using assms by (simp add: findTargetDirectory_def scanDirectories_first_match)

theorem findTargetDirectory_first_match_witness:
  "findTargetDirectory sample_cache 5 = Inr ''dirB'' \<and>
   findTargetDirectory sample_cache 9 = Inr ''dirA'' \<and>
   findTargetDirectory sample_cache 2000 = Inl Abort \<and>
   findTargetDirectory sample_zero_step 200 = Inr ''dirB''"
proof -
  have h: "\<forall>d\<in>set (directories (cfg sample_cache)).
      rangeStart d \<le> a \<and> a < rangeEnd d \<and> interleaveSize d \<noteq> 0 \<longrightarrow> interleaveStep d \<noteq> 0" for a
    by (simp add: sample_cache_def sample_cfg_def)
  have z: "\<forall>d\<in>set (directories (cfg sample_zero_step)).
      rangeStart d \<le> 200 \<and> 200 < rangeEnd d \<and> interleaveSize d \<noteq> 0 \<longrightarrow> interleaveStep d \<noteq> 0"
    by (simp add: sample_zero_step_def sample_cfg_def)
  show ?thesis
    using findTargetDirectory_first_match [OF h, of 5]
      findTargetDirectory_first_match [OF h, of 9]
      findTargetDirectory_first_match [OF h, of 2000]
      findTargetDirectory_first_match [OF z]
    by (simp add: sample_cache_def sample_zero_step_def sample_cfg_def spec_directory_matches_def)
qed

text \<open>
  The claim as first stated has no condition on the step. The first peer of
  \<^verbatim>\<open>sample_zero_step\<close> has the interleave size 4 and the step 0, and its range
  contains the addresses 2 and 5: the function divides by zero at both, where the rule of
  the claim names the first peer for 2 and the second for 5.
\<close>

theorem findTargetDirectory_zero_step_counterexample:
  "findTargetDirectory sample_zero_step 2 = Inl DivByZero \<and>
   map_option ci_name (find (spec_directory_matches 2) (directories (cfg sample_zero_step))) =
     Some ''dirA'' \<and>
   findTargetDirectory sample_zero_step 5 = Inl DivByZero \<and>
   map_option ci_name (find (spec_directory_matches 5) (directories (cfg sample_zero_step))) =
     Some ''dirB''"
  by (simp add: findTargetDirectory_def sample_zero_step_def sample_cache_def sample_cfg_def
        spec_directory_matches_def)

text \<open>
  Claim C5. For a CPU request that hits a block, \<^verbatim>\<open>makeCPUResponse\<close> is to abort
  exactly when the offset of the request from the base of the block plus its size exceeds
  the block size. The function adds the two in 64 bits, and the sum can wrap around. The
  read \<^verbatim>\<open>sample_wrap_read\<close> at the top of the address space hits the block of
  \<^verbatim>\<open>sample_high\<close> through the 32-bit tag of \<^verbatim>\<open>findBlock\<close>; its offset plus its
  size is \<open>2 ^ 64\<close>, far above the block size of 4, and yet the function does not abort:
  it goes on to read the payload outside the data of the block, and for a write of the same
  address and size it returns a response. The handler of the CPU requests ends the same
  way. A read of one byte at \<^verbatim>\<open>0x800000009\<close> hits the block at 8 in the same way and
  aborts, its offset being \<^verbatim>\<open>0x800000001\<close>.
\<close>

theorem makeCPUResponse_sum_wraps:
  "addrToTag sample_high 0x7FFFFFFFC = tag sample_high_block \<and>
   addrToBlockAddr sample_high 0x7FFFFFFFC = baseAddr sample_high_block \<and>
   findBlock sample_high (ev_addr sample_wrap_read) False = Inr (Some (1, 0)) \<and>
   getBlock sample_high (1, 0) = Inr sample_high_block \<and>
   ev_cmd sample_wrap_read = ReadReq \<and>
   length (data sample_high_block) = unat (blocksize (cfg sample_high)) \<and>
   ev_addr sample_wrap_read - baseAddr sample_high_block = 0xFFFFFFFF00000003 \<and>
   unat (blocksize (cfg sample_high))
     < unat (ev_addr sample_wrap_read - baseAddr sample_high_block) + unat (ev_size sample_wrap_read) \<and>
   makeCPUResponse sample_wrap_read (1, 0) UPSTREAM sample_high \<noteq> Inl Abort \<and>
   makeCPUResponse sample_wrap_read (1, 0) UPSTREAM sample_high = Inl OutOfBounds \<and>
   \<not> isl (makeCPUResponse (sample_wrap_read\<lparr>ev_cmd := WriteReq\<rparr>) (1, 0) UPSTREAM sample_high) \<and>
   handleCPURequest dispatchDefault sample_wrap_read True sample_high = Inl OutOfBounds \<and>
   findBlock (sample_with sample_block8) 0x800000009 False = Inr (Some (0, 0)) \<and>
   makeCPUResponse (sample_event\<lparr>ev_addr := 0x800000009, ev_size := 1\<rparr>) (0, 0) UPSTREAM
     (sample_with sample_block8) = Inl Abort"
proof -
  have m: "makeCPUResponse sample_wrap_read (Suc 0, 0) UPSTREAM sample_high = Inl OutOfBounds"
    by (rule makeCPUResponse_sample_wrap) (simp_all add: getBlock_sample_high)
  have r: "ev_cmd sample_wrap_read = ReadReq"
    by (simp add: sample_wrap_read_def sample_event_def)
  have l: "length (data sample_high_block) = unat (blocksize (cfg sample_high))"
    by (simp add: sample_high_block_def sample_cfg_def)
  from sample_high_tag findBlock_sample_high getBlock_sample_high sample_wrap_offset
    sample_wrap_exceeds m r l makeCPUResponse_sample_wrap_write handleCPURequest_sample_wrap
    findBlock_sample_false_hit makeCPUResponse_sample_false_hit
  show ?thesis by simp
qed

text \<open>
  Claim C6, as amended. For a \<^verbatim>\<open>RequestData\<close> event that is not this cache's own send seen on
  the snoop bus, \<^verbatim>\<open>handleCacheRequestEvent\<close> aborts when the size of the event differs
  from the block size; when the block is held Dirty it drops the event if the source is
  Snoop and fails its assertion otherwise; it drops a miss from Downstream and a snoop
  miss that is not addressed to this cache; and for a miss from any other peer it calls
  \<^verbatim>\<open>loadBlock\<close>, after counting the miss on the first processing. That call begins a
  fresh load when no load is outstanding for the block address and the least recently used
  unlocked way of the row can be taken at once (it is not Exclusive and, in an inclusive
  cache, it is Invalid): a new record is registered for the block address with this event
  as the one that began it and as the only entry of its queue, the way is assigned to the
  address and locked, and \<^verbatim>\<open>finishLoadBlock\<close> is scheduled. When a load is outstanding
  for the block address that another event began, the event is appended to the queue of
  that load and no load begins.
\<close>

theorem handleCacheRequestEvent_cases:
  assumes notOwn: "\<not> (src = SNOOP \<and> ev_src ev = name (cfg c))"
  shows "(ev_size ev \<noteq> blocksize (cfg c) \<longrightarrow>
            isl (handleCacheRequestEvent disp ev src fp c) \<and>
            (\<not> isl (findBlock c (ev_addr ev) False) \<longrightarrow>
               handleCacheRequestEvent disp ev src fp c = Inl Abort)) \<and>
         (\<forall>bp b. ev_size ev = blocksize (cfg c) \<and>
            findBlock c (ev_addr ev) False = Inr (Some bp) \<and> getBlock c bp = Inr b \<and>
            status b = DIRTY \<longrightarrow>
              (src = SNOOP \<longrightarrow> handleCacheRequestEvent disp ev src fp c = Inr c) \<and>
              (src \<noteq> SNOOP \<longrightarrow> handleCacheRequestEvent disp ev src fp c = Inl AssertFailed)) \<and>
         (ev_size ev = blocksize (cfg c) \<and> findBlock c (ev_addr ev) False = Inr None \<longrightarrow>
            (src = DOWNSTREAM \<longrightarrow> handleCacheRequestEvent disp ev src fp c = Inr c) \<and>
            (src = SNOOP \<and> ev_dst ev \<noteq> name (cfg c) \<longrightarrow>
               handleCacheRequestEvent disp ev src fp c = Inr c) \<and>
            (src \<noteq> DOWNSTREAM \<and> (src \<noteq> SNOOP \<or> ev_dst ev = name (cfg c)) \<longrightarrow>
               handleCacheRequestEvent disp ev src fp c =
                 loadBlock disp ev src
                   (if fp then bump_supply_miss (emit (NotifyAccess READ MISS (ev_addr ev)) c)
                    else c) \<and>
               (\<forall>row bp b.
                  waitingLoads c (addrToBlockAddr c (ev_addr ev)) = None \<and>
                  findRow c (ev_addr ev) = Inr row \<and> getLRU c row = Some bp \<and>
                  getBlock c bp = Inr b \<and> status b \<noteq> EXCLUSIVE \<and>
                  \<not> (cacheMode (cfg c) = INCLUSIVE \<and> status b \<noteq> INVALID) \<longrightarrow>
                  (\<exists>c'. handleCacheRequestEvent disp ev src fp c = Inr c' \<and>
                     waitingLoads c' =
                       (waitingLoads c)(addrToBlockAddr c (ev_addr ev) \<mapsto> next_li c) \<and>
                     loadInfos c' = (loadInfos c)(next_li c \<mapsto>
                       \<lparr>li_addr = addrToBlockAddr c (ev_addr ev), targetBlock = Some bp,
                        li_busEvent = None, initiatingEvent = ev_id ev,
                        loadDirection = SEND_DOWN, li_list = [loadElement c ev src]\<rparr>) \<and>
                     next_li c' = Suc (next_li c) \<and>
                     getBlock c' bp =
                       Inr (b\<lparr>tag := addrToTag c (ev_addr ev),
                              baseAddr := addrToBlockAddr c (ev_addr ev),
                              status := ASSIGNED, locked := locked b + 1,
                              loadInfo := Some (next_li c)\<rparr>) \<and>
                     out c' =
                       (if fp then out c @ [NotifyAccess READ MISS (ev_addr ev)] else out c) @
                       [SelfSend 1 (FinishLoadBlock (next_li c)
                                      (addrToBlockAddr c (ev_addr ev)) bp)])) \<and>
               (\<forall>li l.
                  waitingLoads c (addrToBlockAddr c (ev_addr ev)) = Some li \<and>
                  loadInfos c li = Some l \<and> li_addr l = addrToBlockAddr c (ev_addr ev) \<and>
                  initiatingEvent l \<noteq> ev_id ev \<longrightarrow>
                  (\<exists>c'. handleCacheRequestEvent disp ev src fp c = Inr c' \<and>
                     loadInfos c' =
                       (loadInfos c)(li \<mapsto> l\<lparr>li_list := li_list l @ [loadElement c ev src]\<rparr>) \<and>
                     waitingLoads c' = waitingLoads c \<and> next_li c' = next_li c \<and>
                     database c' = database c \<and>
                     out c' =
                       (if fp then out c @ [NotifyAccess READ MISS (ev_addr ev)] else out c)))))"
proof -
  define c1 where
    "c1 = (if fp then bump_supply_miss (emit (NotifyAccess READ MISS (ev_addr ev)) c) else c)"
  have 1: "ev_size ev \<noteq> blocksize (cfg c) \<longrightarrow>
            isl (handleCacheRequestEvent disp ev src fp c) \<and>
            (\<not> isl (findBlock c (ev_addr ev) False) \<longrightarrow>
               handleCacheRequestEvent disp ev src fp c = Inl Abort)"
    using notOwn
    by (cases "findBlock c (ev_addr ev) False") (auto simp: handleCacheRequestEvent_def)
  have 2: "\<forall>bp b. ev_size ev = blocksize (cfg c) \<and>
            findBlock c (ev_addr ev) False = Inr (Some bp) \<and> getBlock c bp = Inr b \<and>
            status b = DIRTY \<longrightarrow>
              (src = SNOOP \<longrightarrow> handleCacheRequestEvent disp ev src fp c = Inr c) \<and>
              (src \<noteq> SNOOP \<longrightarrow> handleCacheRequestEvent disp ev src fp c = Inl AssertFailed)"
    using notOwn by (auto simp: handleCacheRequestEvent_def)
  have 3: "(src = DOWNSTREAM \<longrightarrow> handleCacheRequestEvent disp ev src fp c = Inr c) \<and>
           (src = SNOOP \<and> ev_dst ev \<noteq> name (cfg c) \<longrightarrow>
               handleCacheRequestEvent disp ev src fp c = Inr c)"
    if "ev_size ev = blocksize (cfg c)" "findBlock c (ev_addr ev) False = Inr None"
    using notOwn that by (auto simp: handleCacheRequestEvent_def)
  have 4: "handleCacheRequestEvent disp ev src fp c = loadBlock disp ev src c1"
    if "ev_size ev = blocksize (cfg c)" "findBlock c (ev_addr ev) False = Inr None"
       "src \<noteq> DOWNSTREAM" "src \<noteq> SNOOP \<or> ev_dst ev = name (cfg c)"
    using notOwn that by (auto simp: handleCacheRequestEvent_def c1_def)
  have fr: "waitingLoads c1 = waitingLoads c" "loadInfos c1 = loadInfos c" "next_li c1 = next_li c"
    "database c1 = database c" "cfg c1 = cfg c"
    "out c1 = (if fp then out c @ [NotifyAccess READ MISS (ev_addr ev)] else out c)"
    by (simp_all add: c1_def bump_supply_miss_def emit_def)
  have fr2: "addrToBlockAddr c1 a = addrToBlockAddr c a" "addrToTag c1 a = addrToTag c a"
    "findRow c1 a = findRow c a" "getLRU c1 r = getLRU c r" "getBlock c1 p = getBlock c p"
    "loadElement c1 ev src = loadElement c ev src" for a r p
    by (simp_all add: c1_def bump_supply_miss_def emit_def addrToBlockAddr_def addrToTag_def
          findRow_def getLRU_def getBlock_def loadElement_def Let_def)
  have 5: "\<exists>c'. loadBlock disp ev src c1 = Inr c' \<and>
             waitingLoads c' = (waitingLoads c)(addrToBlockAddr c (ev_addr ev) \<mapsto> next_li c) \<and>
             loadInfos c' = (loadInfos c)(next_li c \<mapsto>
               \<lparr>li_addr = addrToBlockAddr c (ev_addr ev), targetBlock = Some bp,
                li_busEvent = None, initiatingEvent = ev_id ev,
                loadDirection = SEND_DOWN, li_list = [loadElement c ev src]\<rparr>) \<and>
             next_li c' = Suc (next_li c) \<and>
             getBlock c' bp =
               Inr (b\<lparr>tag := addrToTag c (ev_addr ev), baseAddr := addrToBlockAddr c (ev_addr ev),
                      status := ASSIGNED, locked := locked b + 1, loadInfo := Some (next_li c)\<rparr>) \<and>
             out c' =
               (if fp then out c @ [NotifyAccess READ MISS (ev_addr ev)] else out c) @
               [SelfSend 1 (FinishLoadBlock (next_li c) (addrToBlockAddr c (ev_addr ev)) bp)]"
    if "waitingLoads c (addrToBlockAddr c (ev_addr ev)) = None"
       "findRow c (ev_addr ev) = Inr row" "getLRU c row = Some bp" "getBlock c bp = Inr b"
       "status b \<noteq> EXCLUSIVE" "\<not> (cacheMode (cfg c) = INCLUSIVE \<and> status b \<noteq> INVALID)"
    for row bp b
    using loadBlock_fresh [where c = c1 and ev = ev and row = row and bp = bp and b = b
                             and disp = disp and src = src] that
    by (simp only: fr fr2) simp
  have 6: "\<exists>c'. loadBlock disp ev src c1 = Inr c' \<and>
             loadInfos c' =
               (loadInfos c)(li \<mapsto> l\<lparr>li_list := li_list l @ [loadElement c ev src]\<rparr>) \<and>
             waitingLoads c' = waitingLoads c \<and> next_li c' = next_li c \<and>
             database c' = database c \<and>
             out c' = (if fp then out c @ [NotifyAccess READ MISS (ev_addr ev)] else out c)"
    if "waitingLoads c (addrToBlockAddr c (ev_addr ev)) = Some li" "loadInfos c li = Some l"
       "li_addr l = addrToBlockAddr c (ev_addr ev)" "initiatingEvent l \<noteq> ev_id ev"
    for li l
    using loadBlock_coalesce [where c = c1 and ev = ev and li = li and l = l
                                and disp = disp and src = src] that
    by (simp add: fr fr2)
  from 1 2 3 4 5 6 show ?thesis unfolding c1_def [symmetric] by simp
qed

theorem handleCacheRequestEvent_cases_witness:
  "handleCacheRequestEvent dispatchDefault (sample_request\<lparr>ev_addr := 16, ev_size := 2\<rparr>) UPSTREAM True
     (sample_with sample_block8) = Inl Abort \<and>
   handleCacheRequestEvent dispatchDefault (sample_request\<lparr>ev_addr := 16\<rparr>) DOWNSTREAM True
     (sample_with sample_block8) = Inr (sample_with sample_block8) \<and>
   handleCacheRequestEvent dispatchDefault (sample_request\<lparr>ev_addr := 16, ev_dst := ''L3''\<rparr>) SNOOP True
     (sample_with sample_block8) = Inr (sample_with sample_block8) \<and>
   out (projr (handleCacheRequestEvent dispatchDefault (sample_request\<lparr>ev_addr := 16\<rparr>) UPSTREAM True
     (sample_with sample_block8))) =
     [NotifyAccess READ MISS 16, SelfSend 1 (FinishLoadBlock 0 16 (0, 1))] \<and>
   handleCacheRequestEvent dispatchDefault sample_request SNOOP True
     (sample_with (sample_block8\<lparr>status := DIRTY\<rparr>)) = Inr (sample_with (sample_block8\<lparr>status := DIRTY\<rparr>)) \<and>
   handleCacheRequestEvent dispatchDefault sample_request UPSTREAM True
     (sample_with (sample_block8\<lparr>status := DIRTY\<rparr>)) = Inl AssertFailed \<and>
   (\<exists>c'. handleCacheRequestEvent dispatchDefault (sample_request\<lparr>ev_addr := 16\<rparr>) UPSTREAM True
            (sample_with sample_block8) = Inr c' \<and>
         waitingLoads c' 16 = Some 0 \<and> next_li c' = 1 \<and>
         map_option initiatingEvent (loadInfos c' 0) = Some (1, 0) \<and>
         map_option targetBlock (loadInfos c' 0) = Some (Some (0, 1)) \<and>
         getBlock c' (0, 1) =
           Inr (sample_block\<lparr>tag := 2, baseAddr := 16, status := ASSIGNED, locked := 1,
                              loadInfo := Some 0\<rparr>)) \<and>
   (\<exists>c'. handleCacheRequestEvent dispatchDefault sample_second_request UPSTREAM True
            (sample_loading [sample_cpu_entry]) = Inr c' \<and>
         map_option li_list (loadInfos c' 0) =
           Some [sample_cpu_entry,
                 \<lparr>le_ev = Some sample_second_request, le_src = UPSTREAM, le_issueTime = 5\<rparr>] \<and>
         next_li c' = 1 \<and> out c' = [NotifyAccess READ MISS 8])"
proof -
  let ?c = "sample_with sample_block8"
  let ?d = "sample_with (sample_block8\<lparr>status := DIRTY\<rparr>)"
  let ?l = "sample_loading [sample_cpu_entry]"
  let ?r = "sample_request\<lparr>ev_addr := 16\<rparr>"
  let ?q = "sample_second_request"
  have own: "\<not> (src = SNOOP \<and> ev_src (sample_request\<lparr>ev_addr := a, ev_size := s\<rparr>) = name (cfg (sample_with b)))"
    for src a s b
    by (simp add: sample_request_def sample_cfg_def)
  have own': "\<not> (src = SNOOP \<and> ev_src (sample_request\<lparr>ev_addr := a\<rparr>) = name (cfg (sample_with b)))"
    for src a b
    by (simp add: sample_request_def sample_cfg_def)
  have own'': "\<not> (src = SNOOP \<and> ev_src sample_request = name (cfg (sample_with b)))" for src b
    by (simp add: sample_request_def sample_cfg_def)
  have ownq: "\<not> (UPSTREAM = SNOOP \<and> ev_src ?q = name (cfg ?l))" by simp
  have sz: "ev_size ?r = blocksize (cfg ?c)" "ev_size sample_request = blocksize (cfg ?d)"
    "ev_size (sample_request\<lparr>ev_addr := 16, ev_size := 2\<rparr>) \<noteq> blocksize (cfg ?c)"
    "ev_size ?q = blocksize (cfg ?l)"
    by (simp_all add: sample_second_request_def sample_request_def sample_event_def sample_cfg_def)
  have ad: "ev_addr ?r = 16" "ev_addr sample_request = 8"
    "ev_addr (sample_request\<lparr>ev_addr := 16, ev_size := 2\<rparr>) = 16" "ev_addr ?q = 8"
    by (simp_all add: sample_second_request_def sample_request_def)
  have ds: "ev_dst ?r = name (cfg ?c)"
    by (simp add: sample_request_def sample_event_def sample_cfg_def)
  have mi: "findBlock ?c (ev_addr ?r) False = Inr None"
    "findBlock ?c (ev_addr (sample_request\<lparr>ev_addr := 16, ev_size := 2\<rparr>)) False = Inr None"
    using findBlock_sample_miss by (simp_all add: ad)
  have ml: "findBlock ?l (ev_addr ?q) False = Inr None"
    using findBlock_sample_loading by (simp add: ad)
  have hi: "findBlock ?d (ev_addr sample_request) False = Inr (Some (0, 0))"
    using findBlock_sample_dirty by (simp add: ad)
  have gd: "getBlock ?d (0, 0) = Inr (sample_block8\<lparr>status := DIRTY\<rparr>)" by simp
  have 1: "handleCacheRequestEvent dispatchDefault (sample_request\<lparr>ev_addr := 16, ev_size := 2\<rparr>)
             UPSTREAM True ?c = Inl Abort"
    using handleCacheRequestEvent_cases
            [where src = UPSTREAM and ev = "sample_request\<lparr>ev_addr := 16, ev_size := 2\<rparr>"
               and c = ?c and disp = dispatchDefault and fp = True]
      own sz mi by simp
  have 2: "handleCacheRequestEvent dispatchDefault ?r DOWNSTREAM True ?c = Inr ?c"
    using handleCacheRequestEvent_cases
            [where src = DOWNSTREAM and ev = ?r and c = ?c and disp = dispatchDefault and fp = True]
      own' sz mi by simp
  have s2: "handleCacheRequestEvent dispatchDefault (?r\<lparr>ev_dst := ''L3''\<rparr>) SNOOP True ?c = Inr ?c"
    using handleCacheRequestEvent_cases
            [where src = SNOOP and ev = "?r\<lparr>ev_dst := ''L3''\<rparr>" and c = ?c
               and disp = dispatchDefault and fp = True]
      sz mi by (simp add: sample_request_def sample_cfg_def)
  note T = handleCacheRequestEvent_cases
            [where src = UPSTREAM and ev = ?r and c = ?c and disp = dispatchDefault and fp = True,
             OF own']
  have 3: "handleCacheRequestEvent dispatchDefault ?r UPSTREAM True ?c =
             loadBlock dispatchDefault ?r UPSTREAM
               (bump_supply_miss (emit (NotifyAccess READ MISS 16) ?c))"
    using T sz mi ad by simp
  have 4: "handleCacheRequestEvent dispatchDefault sample_request SNOOP True ?d = Inr ?d"
    using handleCacheRequestEvent_cases
            [where src = SNOOP and ev = sample_request and c = ?d and disp = dispatchDefault
               and fp = True]
      own'' sz hi gd by simp
  have 5: "handleCacheRequestEvent dispatchDefault sample_request UPSTREAM True ?d = Inl AssertFailed"
    using handleCacheRequestEvent_cases
            [where src = UPSTREAM and ev = sample_request and c = ?d and disp = dispatchDefault
               and fp = True]
      own'' sz hi gd by simp
  have ba: "addrToBlockAddr ?c (ev_addr ?r) = 16" "addrToTag ?c (ev_addr ?r) = 2"
    by (simp_all add: addrToBlockAddr_def addrToTag_def ad sample_cfg_def)
  have f1: "waitingLoads ?c (addrToBlockAddr ?c (ev_addr ?r)) = None"
    by (simp add: sample_with_def sample_cache_def)
  have f2: "findRow ?c (ev_addr ?r) = Inr 0"
    unfolding ad by code_simp
  have f3: "getLRU ?c 0 = Some (0, 1)" by code_simp
  have f4: "getBlock ?c (0, 1) = Inr sample_block"
    by (simp add: getBlock_def sample_with_def sample_row_def)
  have f5: "status sample_block \<noteq> EXCLUSIVE"
    "\<not> (cacheMode (cfg ?c) = INCLUSIVE \<and> status sample_block \<noteq> INVALID)"
    by (simp_all add: sample_block_def sample_cfg_def)
  have nl: "next_li ?c = 0" "loadInfos ?c = Map.empty" "locked sample_block = 0"
    by (simp_all add: sample_with_def sample_cache_def sample_block_def)
  have idr: "ev_id ?r = (1, 0)" by (simp add: sample_request_def sample_event_def)
  from T sz mi ds f1 f2 f3 f4 f5
  have "\<exists>c'. handleCacheRequestEvent dispatchDefault ?r UPSTREAM True ?c = Inr c' \<and>
          waitingLoads c' = (waitingLoads ?c)(addrToBlockAddr ?c (ev_addr ?r) \<mapsto> next_li ?c) \<and>
          loadInfos c' = (loadInfos ?c)(next_li ?c \<mapsto>
             \<lparr>li_addr = addrToBlockAddr ?c (ev_addr ?r), targetBlock = Some (0, 1),
              li_busEvent = None, initiatingEvent = ev_id ?r,
              loadDirection = SEND_DOWN, li_list = [loadElement ?c ?r UPSTREAM]\<rparr>) \<and>
          next_li c' = Suc (next_li ?c) \<and>
          getBlock c' (0, 1) =
            Inr (sample_block\<lparr>tag := addrToTag ?c (ev_addr ?r),
                   baseAddr := addrToBlockAddr ?c (ev_addr ?r),
                   status := ASSIGNED, locked := locked sample_block + 1,
                   loadInfo := Some (next_li ?c)\<rparr>)"
    by blast
  then have 6: "\<exists>c'. handleCacheRequestEvent dispatchDefault ?r UPSTREAM True ?c = Inr c' \<and>
         waitingLoads c' 16 = Some 0 \<and> next_li c' = 1 \<and>
         map_option initiatingEvent (loadInfos c' 0) = Some (1, 0) \<and>
         map_option targetBlock (loadInfos c' 0) = Some (Some (0, 1)) \<and>
         getBlock c' (0, 1) =
           Inr (sample_block\<lparr>tag := 2, baseAddr := 16, status := ASSIGNED, locked := 1,
                              loadInfo := Some 0\<rparr>)"
    unfolding ba nl idr by auto
  have g1: "waitingLoads ?l (addrToBlockAddr ?l (ev_addr ?q)) = Some 0"
    by (simp add: ad addrToBlockAddr_def sample_cfg_def) (simp add: sample_loading_def)
  have g2: "loadInfos ?l 0 = Some (sample_load\<lparr>li_list := [sample_cpu_entry]\<rparr>)"
    by (simp add: sample_loading_def)
  have g3: "li_addr (sample_load\<lparr>li_list := [sample_cpu_entry]\<rparr>) = addrToBlockAddr ?l (ev_addr ?q)"
    by (simp add: ad addrToBlockAddr_def sample_cfg_def sample_load_def)
  have g4: "initiatingEvent (sample_load\<lparr>li_list := [sample_cpu_entry]\<rparr>) \<noteq> ev_id ?q"
    by (simp add: sample_load_def sample_second_request_def)
  have g5: "ev_dst ?q = name (cfg ?l)" "UPSTREAM \<noteq> DOWNSTREAM"
    by (simp_all add: sample_second_request_def sample_request_def sample_event_def sample_cfg_def)
  have gl: "next_li ?l = 1" "out ?l = []" "loadElement ?l ?q UPSTREAM =
      \<lparr>le_ev = Some sample_second_request, le_src = UPSTREAM, le_issueTime = 5\<rparr>"
    by (simp_all add: sample_loading_def sample_with_def sample_cache_def loadElement_def)
  from handleCacheRequestEvent_cases
            [where src = UPSTREAM and ev = ?q and c = ?l and disp = dispatchDefault and fp = True,
             OF ownq] sz ml g1 g2 g3 g4 g5
  have "\<exists>c'. handleCacheRequestEvent dispatchDefault ?q UPSTREAM True ?l = Inr c' \<and>
          loadInfos c' = (loadInfos ?l)(0 \<mapsto> (sample_load\<lparr>li_list := [sample_cpu_entry]\<rparr>)
             \<lparr>li_list := li_list (sample_load\<lparr>li_list := [sample_cpu_entry]\<rparr>) @
                          [loadElement ?l ?q UPSTREAM]\<rparr>) \<and>
          next_li c' = next_li ?l \<and>
          out c' = (if True then out ?l @ [NotifyAccess READ MISS (ev_addr ?q)] else out ?l)"
    by blast
  then have 7: "\<exists>c'. handleCacheRequestEvent dispatchDefault ?q UPSTREAM True ?l = Inr c' \<and>
         map_option li_list (loadInfos c' 0) =
           Some [sample_cpu_entry,
                 \<lparr>le_ev = Some sample_second_request, le_src = UPSTREAM, le_issueTime = 5\<rparr>] \<and>
         next_li c' = 1 \<and> out c' = [NotifyAccess READ MISS 8]"
    unfolding gl ad by auto
  from 1 2 s2 4 5 6 7 show ?thesis unfolding 3 loadBlock_sample_out by simp
qed

text \<open>
  The claim as first stated begins a fresh load for every miss from such a peer. In
  \<^verbatim>\<open>sample_loading\<close> a load of the block at 8 is outstanding. A request of an upstream
  peer for that block misses (the block is only Assigned); the handler appends it to the
  queue of the outstanding load, registers no new record and schedules nothing.
\<close>

theorem handleCacheRequestEvent_outstanding_load_counterexample:
  "ev_cmd sample_second_request = RequestData \<and>
   ev_size sample_second_request = blocksize (cfg (sample_loading [sample_cpu_entry])) \<and>
   findBlock (sample_loading [sample_cpu_entry]) (ev_addr sample_second_request) False = Inr None \<and>
   \<not> isl (handleCacheRequestEvent dispatchDefault sample_second_request UPSTREAM True
            (sample_loading [sample_cpu_entry])) \<and>
   out (projr (handleCacheRequestEvent dispatchDefault sample_second_request UPSTREAM True
            (sample_loading [sample_cpu_entry]))) = [NotifyAccess READ MISS 8] \<and>
   next_li (projr (handleCacheRequestEvent dispatchDefault sample_second_request UPSTREAM True
            (sample_loading [sample_cpu_entry]))) = next_li (sample_loading [sample_cpu_entry]) \<and>
   waitingLoads (projr (handleCacheRequestEvent dispatchDefault sample_second_request UPSTREAM True
            (sample_loading [sample_cpu_entry]))) 8 = Some 0 \<and>
   map_option initiatingEvent (loadInfos (projr (handleCacheRequestEvent dispatchDefault
            sample_second_request UPSTREAM True (sample_loading [sample_cpu_entry]))) 0) = Some (1, 0) \<and>
   map_option li_list (loadInfos (projr (handleCacheRequestEvent dispatchDefault
            sample_second_request UPSTREAM True (sample_loading [sample_cpu_entry]))) 0) =
     Some [sample_cpu_entry,
           \<lparr>le_ev = Some sample_second_request, le_src = UPSTREAM, le_issueTime = 5\<rparr>] \<and>
   database (projr (handleCacheRequestEvent dispatchDefault sample_second_request UPSTREAM True
            (sample_loading [sample_cpu_entry]))) = database (sample_loading [sample_cpu_entry])"
  by code_simp

text \<open>
  Claim C7, as amended. When a scheduled supply fires on a block whose \<open>user_locked\<close>
  count is not zero and the supply was not canceled, \<^verbatim>\<open>supplyData\<close> releases the
  protocol lock of the block, sets its \<open>user_lock_needs_wb\<close> flag and builds a response
  with the Delayed flag, the block size and no payload. The response is sent on the
  downstream link to a Downstream requester and on the requesting link to an Upstream
  requester; for a Snoop requester it is queued on the bus with the handlers of a fake
  supply; for a Self or Prefetcher requester nothing is sent and nothing is queued; for a
  Directory requester the assertion that a reply to the directory is never Delayed fails.
\<close>

theorem supplyData_delayed_by_requester:
  assumes blk: "getBlock c bp = Inr b"
      and ul: "user_locked b \<noteq> 0"
      and sup: "supplyInProgress c (baseAddr b, src) = Some si"
      and nc: "\<not> canceled si"
  shows "\<exists>resp b'. queryFlag resp F_DELAYED \<and> ev_payload resp = [] \<and> ev_cmd resp = SupplyData \<and>
           ev_addr resp = baseAddr b \<and> ev_size resp = blocksize (cfg c) \<and>
           b' = b\<lparr>locked := locked b - 1, user_lock_needs_wb := True\<rparr> \<and>
           (src = DOWNSTREAM \<and> downstream_link (cfg c) \<longrightarrow>
              (\<exists>c'. supplyData ev bp src c = Inr c' \<and> getBlock c' bp = Inr b' \<and>
                 out c' = out c @ [Send DownstreamLink resp] \<and>
                 snoopBusQueue c' = snoopBusQueue c)) \<and>
           (src = UPSTREAM \<and> upstreamLinkMap c (ev_linkId ev) = Some i \<and>
              i < length (upstream_links (cfg c)) \<longrightarrow>
              (\<exists>c'. supplyData ev bp src c = Inr c' \<and> getBlock c' bp = Inr b' \<and>
                 out c' = out c @ [Send (UpstreamLink i) resp] \<and>
                 snoopBusQueue c' = snoopBusQueue c)) \<and>
           (src = SNOOP \<longrightarrow>
              (\<exists>c'. supplyData ev bp src c = Inr c' \<and> getBlock c' bp = Inr b' \<and>
                 out c' = out c \<and>
                 snoopBusQueue c' = snoopBusQueue c @
                   [\<lparr>br_event = resp, br_finish = Some (FinishBusSupplyData bp SNOOP True),
                     br_init = Some (PrepBusSupplyData bp SNOOP True)\<rparr>])) \<and>
           (src = SELF \<or> src = PREFETCHER \<longrightarrow>
              (\<exists>c'. supplyData ev bp src c = Inr c' \<and> getBlock c' bp = Inr b' \<and>
                 out c' = out c \<and> snoopBusQueue c' = snoopBusQueue c)) \<and>
           (src = DIRECTORY \<and> directory_link (cfg c) \<longrightarrow>
              supplyData ev bp src c = Inl AssertFailed)"
proof -
  define resp where
    "resp = (setFlag F_DELAYED (fst (newMemEvent (setBlock bp (unlock b) c) (baseAddr b) SupplyData)))
              \<lparr>ev_size := blocksize (cfg c)\<rparr>"
  define b' where "b' = b\<lparr>locked := locked b - 1, user_lock_needs_wb := True\<rparr>"
  have v: "fst bp < length (database c) \<and> snd bp < length (blocks (database c ! fst bp))"
    using blk by (auto simp: getBlock_def split: if_splits)
  have r: "queryFlag resp F_DELAYED \<and> ev_payload resp = [] \<and> ev_cmd resp = SupplyData \<and>
           ev_addr resp = baseAddr b \<and> ev_size resp = blocksize (cfg c)"
    by (simp add: resp_def queryFlag_def setFlag_def newMemEvent_def)
  have d: "src = DOWNSTREAM \<and> downstream_link (cfg c) \<longrightarrow>
              (\<exists>c'. supplyData ev bp src c = Inr c' \<and> getBlock c' bp = Inr b' \<and>
                 out c' = out c @ [Send DownstreamLink resp] \<and>
                 snoopBusQueue c' = snoopBusQueue c)"
    using blk ul sup nc v
    by (auto simp: supplyData_def Let_def unlock_def newMemEvent_def resp_def b'_def
          sendLink_def emit_def eraseSupply_def queryFlag_def setFlag_def getBlock_def setBlock_def)
  have u: "src = UPSTREAM \<and> upstreamLinkMap c (ev_linkId ev) = Some i \<and>
              i < length (upstream_links (cfg c)) \<longrightarrow>
              (\<exists>c'. supplyData ev bp src c = Inr c' \<and> getBlock c' bp = Inr b' \<and>
                 out c' = out c @ [Send (UpstreamLink i) resp] \<and>
                 snoopBusQueue c' = snoopBusQueue c)"
    using blk ul sup nc v
    by (auto simp: supplyData_def Let_def unlock_def newMemEvent_def resp_def b'_def
          sendLink_def emit_def eraseSupply_def queryFlag_def setFlag_def getBlock_def setBlock_def
          upstreamIndex_def)
  have s: "src = SNOOP \<longrightarrow>
              (\<exists>c'. supplyData ev bp src c = Inr c' \<and> getBlock c' bp = Inr b' \<and>
                 out c' = out c \<and>
                 snoopBusQueue c' = snoopBusQueue c @
                   [\<lparr>br_event = resp, br_finish = Some (FinishBusSupplyData bp SNOOP True),
                     br_init = Some (PrepBusSupplyData bp SNOOP True)\<rparr>])"
    using blk ul sup nc v
    by (auto simp: supplyData_def Let_def unlock_def newMemEvent_def resp_def b'_def
          busRequest_def queryFlag_def setFlag_def getBlock_def setBlock_def)
  have p: "src = SELF \<or> src = PREFETCHER \<longrightarrow>
              (\<exists>c'. supplyData ev bp src c = Inr c' \<and> getBlock c' bp = Inr b' \<and>
                 out c' = out c \<and> snoopBusQueue c' = snoopBusQueue c)"
    using blk ul sup nc v
    by (auto simp: supplyData_def Let_def unlock_def newMemEvent_def resp_def b'_def
          queryFlag_def setFlag_def getBlock_def setBlock_def)
  have x: "src = DIRECTORY \<and> directory_link (cfg c) \<longrightarrow>
              supplyData ev bp src c = Inl AssertFailed"
    using blk ul sup nc v
    by (auto simp: supplyData_def Let_def unlock_def newMemEvent_def
          sendLink_def emit_def eraseSupply_def queryFlag_def setFlag_def getBlock_def setBlock_def)
  show ?thesis
    apply (rule exI [of _ resp])
    apply (rule exI [of _ b'])
    using r d u s p x by (simp add: b'_def)
qed

theorem supplyData_delayed_by_requester_witness:
  "\<exists>resp c'. supplyData sample_request (0, 0) DOWNSTREAM (sample_supply sample_locked_block DOWNSTREAM) = Inr c' \<and>
     out c' = [Send DownstreamLink resp] \<and> queryFlag resp F_DELAYED \<and> ev_payload resp = [] \<and>
     getBlock c' (0, 0) = Inr (sample_locked_block\<lparr>locked := 0, user_lock_needs_wb := True\<rparr>)"
proof -
  let ?c = "sample_supply sample_locked_block DOWNSTREAM"
  have b: "getBlock ?c (0, 0) = Inr sample_locked_block" by simp
  have u: "user_locked sample_locked_block \<noteq> 0" by (simp add: sample_locked_block_def)
  have s: "supplyInProgress ?c (baseAddr sample_locked_block, DOWNSTREAM) =
             Some \<lparr>sup_busEvent = None, canceled = False\<rparr>"
    by (simp add: sample_supply_def)
  have n: "\<not> canceled \<lparr>sup_busEvent = None, canceled = False\<rparr>" by simp
  have d: "downstream_link (cfg ?c)"
    by (simp add: sample_supply_def sample_with_def sample_cache_def sample_cfg_def)
  have o: "out ?c = []" by (simp add: sample_supply_def sample_with_def sample_cache_def)
  have l: "locked sample_locked_block - 1 = 0" by (simp add: sample_locked_block_def)
  from supplyData_delayed_by_requester [OF b u s n, of sample_request 0] d o l
  show ?thesis by auto
qed

text \<open>
  The claim as first stated, that the supply always sends the Delayed response, fails
  for a requester that is the prefetcher: the flag is set, and nothing leaves the cache.
\<close>

theorem supplyData_delayed_counterexample:
  "user_locked sample_locked_block \<noteq> 0 \<and>
   supplyActive (sample_supply sample_locked_block PREFETCHER) (baseAddr sample_locked_block, PREFETCHER) \<and>
   \<not> isl (supplyData sample_request (0, 0) PREFETCHER (sample_supply sample_locked_block PREFETCHER)) \<and>
   out (projr (supplyData sample_request (0, 0) PREFETCHER (sample_supply sample_locked_block PREFETCHER))) = [] \<and>
   snoopBusQueue (projr (supplyData sample_request (0, 0) PREFETCHER
      (sample_supply sample_locked_block PREFETCHER))) = []"
  by (simp add: supplyData_def supplyActive_def sample_supply_def sample_locked_block_def
        sample_block8_def sample_block_def getBlock_def setBlock_def
        sample_with_def sample_row_def sample_cache_def sample_cfg_def newMemEvent_def
        unlock_def Let_def)

text \<open>
  Claim C8. \<^verbatim>\<open>writebackBlock\<close> on a block whose writeback is in flight
  (\<open>wb_in_progress\<close> is set) returns at once: no event is sent, no bus request is made
  and no part of the state changes, the lock count and the status of the block included.
\<close>

theorem writebackBlock_in_flight:
  assumes "getBlock c bp = Inr b" and "wb_in_progress b"
  shows "writebackBlock bp newSt c = Inr c"
  using assms by (simp add: writebackBlock_def)

theorem writebackBlock_in_flight_witness:
  "getBlock (sample_with (sample_block8\<lparr>wb_in_progress := True\<rparr>)) (0, 0) =
     Inr (sample_block8\<lparr>wb_in_progress := True\<rparr>) \<and>
   wb_in_progress (sample_block8\<lparr>wb_in_progress := True\<rparr>) \<and>
   writebackBlock (0, 0) INVALID (sample_with (sample_block8\<lparr>wb_in_progress := True\<rparr>)) =
     Inr (sample_with (sample_block8\<lparr>wb_in_progress := True\<rparr>))"
  using writebackBlock_in_flight
          [of "sample_with (sample_block8\<lparr>wb_in_progress := True\<rparr>)" "(0, 0)"
              "sample_block8\<lparr>wb_in_progress := True\<rparr>" INVALID]
  by simp

text \<open>
  Claim C9. An ACK for an address that has no invalidation record, answering no issuing
  event and not sent by this cache, is ignored, but the table does not stay as it was:
  the lookup creates a default record for the address, so \<^verbatim>\<open>waitingForInvalidate\<close>
  becomes true for it, and a later read that hits the block of that address is queued on
  the phantom record instead of being answered.
\<close>

theorem ackInvalidate_phantom_record:
  assumes none: "invalidations c (ev_addr ack) = None"
      and nm: "ev_responseTo ack \<noteq> issuingEvent defaultInvalidation"
      and ns: "ev_src ack \<noteq> name (cfg c)"
  shows "\<exists>c'. ackInvalidate disp ack c = Inr c' \<and>
           \<not> waitingForInvalidate c (ev_addr ack) \<and>
           waitingForInvalidate c' (ev_addr ack) \<and>
           invalidations c' = (invalidations c)(ev_addr ack \<mapsto> defaultInvalidation) \<and>
           (\<forall>rd bp b fp. ev_cmd rd = ReadReq \<and> findBlock c (ev_addr rd) False = Inr (Some bp) \<and>
               getBlock c bp = Inr b \<and> baseAddr b = ev_addr ack \<longrightarrow>
               (\<exists>c''. handleCPURequest disp rd fp c' = Inr c'' \<and>
                  map_option waitingEvents (invalidations c'' (ev_addr ack)) = Some [(rd, UPSTREAM)] \<and>
                  out c'' = out c @ (if fp then [NotifyAccess READ HIT (ev_addr rd)] else [])))"
proof -
  have a: "ackInvalidate disp ack c = Inr (touchInv (ev_addr ack) c)"
    using none nm ns by (simp add: ackInvalidate_def Let_def touchInv_def getInv_def)
  have i: "invalidations (touchInv (ev_addr ack) c) = (invalidations c)(ev_addr ack \<mapsto> defaultInvalidation)"
    using none by (simp add: touchInv_def)
  have q: "ev_cmd rd = ReadReq \<and> findBlock c (ev_addr rd) False = Inr (Some bp) \<and>
               getBlock c bp = Inr b \<and> baseAddr b = ev_addr ack \<longrightarrow>
               (\<exists>c''. handleCPURequest disp rd fp (touchInv (ev_addr ack) c) = Inr c'' \<and>
                  map_option waitingEvents (invalidations c'' (ev_addr ack)) = Some [(rd, UPSTREAM)] \<and>
                  out c'' = out c @ (if fp then [NotifyAccess READ HIT (ev_addr rd)] else []))"
    for rd bp b fp
    using none
    by (auto simp: handleCPURequest_def Let_def touchInv_def waitingForInvalidate_def
          queueBehindInvalidate_def updInv_def getInv_def touchBlock_def emit_def
          bump_read_hit_def getBlock_def setBlock_def findBlock_def findRow_def addrToTag_def
          defaultInvalidation_def queryFlag_def split: if_splits)
  show ?thesis
  proof (intro exI conjI)
    show "ackInvalidate disp ack c = Inr (touchInv (ev_addr ack) c)" by (rule a)
    show "\<not> waitingForInvalidate c (ev_addr ack)"
      using none by (simp add: waitingForInvalidate_def)
    show "waitingForInvalidate (touchInv (ev_addr ack) c) (ev_addr ack)"
      using i by (simp add: waitingForInvalidate_def)
    show "invalidations (touchInv (ev_addr ack) c) =
            (invalidations c)(ev_addr ack \<mapsto> defaultInvalidation)" by (rule i)
    show "\<forall>rd bp b fp. ev_cmd rd = ReadReq \<and> findBlock c (ev_addr rd) False = Inr (Some bp) \<and>
               getBlock c bp = Inr b \<and> baseAddr b = ev_addr ack \<longrightarrow>
               (\<exists>c''. handleCPURequest disp rd fp (touchInv (ev_addr ack) c) = Inr c'' \<and>
                  map_option waitingEvents (invalidations c'' (ev_addr ack)) = Some [(rd, UPSTREAM)] \<and>
                  out c'' = out c @ (if fp then [NotifyAccess READ HIT (ev_addr rd)] else []))"
      using q by blast
  qed
qed

theorem ackInvalidate_phantom_record_witness:
  "\<exists>c' c''. ackInvalidate dispatchDefault (sample_ack\<lparr>ev_addr := 8\<rparr>) (sample_with sample_block8) = Inr c' \<and>
     waitingForInvalidate c' 8 \<and>
     handleCPURequest dispatchDefault (sample_event\<lparr>ev_addr := 9\<rparr>) True c' = Inr c'' \<and>
     map_option waitingEvents (invalidations c'' 8) = Some [(sample_event\<lparr>ev_addr := 9\<rparr>, UPSTREAM)] \<and>
     out c'' = [NotifyAccess READ HIT 9]"
proof -
  let ?c = "sample_with sample_block8"
  have n: "invalidations ?c (ev_addr (sample_ack\<lparr>ev_addr := 8\<rparr>)) = None"
    by (simp add: sample_with_def sample_cache_def)
  have m: "ev_responseTo (sample_ack\<lparr>ev_addr := 8\<rparr>) \<noteq> issuingEvent defaultInvalidation"
    by (simp add: sample_ack_def defaultInvalidation_def)
  have s: "ev_src (sample_ack\<lparr>ev_addr := 8\<rparr>) \<noteq> name (cfg ?c)"
    by (simp add: sample_ack_def sample_cfg_def)
  have r: "ev_cmd (sample_event\<lparr>ev_addr := 9\<rparr>) = ReadReq \<and>
           findBlock ?c (ev_addr (sample_event\<lparr>ev_addr := 9\<rparr>)) False = Inr (Some (0, 0)) \<and>
           getBlock ?c (0, 0) = Inr sample_block8 \<and>
           baseAddr sample_block8 = ev_addr (sample_ack\<lparr>ev_addr := 8\<rparr>)"
    using findBlock_sample by (simp add: sample_event_def) (simp add: sample_block8_def)
  have o: "out ?c = []" by (simp add: sample_with_def sample_cache_def)
  from ackInvalidate_phantom_record [OF n m s, of dispatchDefault]
  obtain c' where a: "ackInvalidate dispatchDefault (sample_ack\<lparr>ev_addr := 8\<rparr>) ?c = Inr c'"
    and w: "waitingForInvalidate c' (ev_addr (sample_ack\<lparr>ev_addr := 8\<rparr>))"
    and q: "\<forall>rd bp b fp. ev_cmd rd = ReadReq \<and> findBlock ?c (ev_addr rd) False = Inr (Some bp) \<and>
               getBlock ?c bp = Inr b \<and> baseAddr b = ev_addr (sample_ack\<lparr>ev_addr := 8\<rparr>) \<longrightarrow>
               (\<exists>c''. handleCPURequest dispatchDefault rd fp c' = Inr c'' \<and>
                  map_option waitingEvents (invalidations c'' (ev_addr (sample_ack\<lparr>ev_addr := 8\<rparr>))) =
                    Some [(rd, UPSTREAM)] \<and>
                  out c'' = out ?c @ (if fp then [NotifyAccess READ HIT (ev_addr rd)] else []))"
    by blast
  from q [rule_format, of "sample_event\<lparr>ev_addr := 9\<rparr>" "(0, 0)" sample_block8 True] r
  obtain c'' where "handleCPURequest dispatchDefault (sample_event\<lparr>ev_addr := 9\<rparr>) True c' = Inr c''"
    and "map_option waitingEvents (invalidations c'' (ev_addr (sample_ack\<lparr>ev_addr := 8\<rparr>))) =
           Some [(sample_event\<lparr>ev_addr := 9\<rparr>, UPSTREAM)]"
    and "out c'' = out ?c @ [NotifyAccess READ HIT (ev_addr (sample_event\<lparr>ev_addr := 9\<rparr>))]"
    by auto
  with a w o show ?thesis by auto
qed

text \<open>
  Claim C10. \<^verbatim>\<open>handleCPURequest\<close> requires a \<^verbatim>\<open>WriteReq\<close> that carries the Locked
  flag to hit a block in Exclusive state: the assertion on the status of the block comes
  before the hit and miss paths, so a locked write that returns has hit an Exclusive
  block, a locked write that hits a block in another state fails the assertion, and a
  locked write that misses uses the null block pointer in the assertion and never reaches
  the miss path, where a write without the flag starts the load. The assertion is taken
  as compiled in.
\<close>

theorem handleCPURequest_locked_write:
  assumes wr: "ev_cmd ev = WriteReq"
  shows "(queryFlag ev F_LOCKED \<and> findBlock c (ev_addr ev) False = Inr None \<longrightarrow>
            handleCPURequest disp ev fp c = Inl NullDeref) \<and>
         (\<forall>bp b. queryFlag ev F_LOCKED \<and> findBlock c (ev_addr ev) False = Inr (Some bp) \<and>
            getBlock c bp = Inr b \<and> status b \<noteq> EXCLUSIVE \<longrightarrow>
            handleCPURequest disp ev fp c = Inl AssertFailed) \<and>
         (\<forall>c'. queryFlag ev F_LOCKED \<and> handleCPURequest disp ev fp c = Inr c' \<longrightarrow>
            (\<exists>bp b. findBlock c (ev_addr ev) False = Inr (Some bp) \<and> getBlock c bp = Inr b \<and>
               status b = EXCLUSIVE)) \<and>
         (\<not> queryFlag ev F_LOCKED \<and> findBlock c (ev_addr ev) False = Inr None \<longrightarrow>
            handleCPURequest disp ev fp c =
              loadBlock disp ev UPSTREAM
                (if fp then bump_write_miss (emit (NotifyAccess WRITE MISS (ev_addr ev)) (c\<lparr>isL1 := True\<rparr>))
                 else c\<lparr>isL1 := True\<rparr>))"
proof -
  have 1: "queryFlag ev F_LOCKED \<and> findBlock c (ev_addr ev) False = Inr None \<longrightarrow>
            handleCPURequest disp ev fp c = Inl NullDeref"
    using wr by (auto simp: handleCPURequest_def Let_def derefBlock_def)
  have 2: "\<forall>bp b. queryFlag ev F_LOCKED \<and> findBlock c (ev_addr ev) False = Inr (Some bp) \<and>
            getBlock c bp = Inr b \<and> status b \<noteq> EXCLUSIVE \<longrightarrow>
            handleCPURequest disp ev fp c = Inl AssertFailed"
    using wr by (auto simp: handleCPURequest_def Let_def derefBlock_def)
  have 3: "\<forall>c'. queryFlag ev F_LOCKED \<and> handleCPURequest disp ev fp c = Inr c' \<longrightarrow>
            (\<exists>bp b. findBlock c (ev_addr ev) False = Inr (Some bp) \<and> getBlock c bp = Inr b \<and>
               status b = EXCLUSIVE)"
  proof (intro allI impI)
    fix c'
    assume h: "queryFlag ev F_LOCKED \<and> handleCPURequest disp ev fp c = Inr c'"
    show "\<exists>bp b. findBlock c (ev_addr ev) False = Inr (Some bp) \<and> getBlock c bp = Inr b \<and>
               status b = EXCLUSIVE"
    proof (cases "findBlock c (ev_addr ev) False")
      case (Inl e)
      with h wr show ?thesis by (simp add: handleCPURequest_def Let_def)
    next
      case (Inr block)
      show ?thesis
      proof (cases block)
        case None
        with Inr h 1 show ?thesis by simp
      next
        case (Some bp)
        show ?thesis
        proof (cases "getBlock c bp")
          case (Inl e)
          with Some \<open>findBlock c (ev_addr ev) False = Inr block\<close> h wr show ?thesis
            by (cases fp) (auto simp add: handleCPURequest_def Let_def derefBlock_def)
        next
          case (Inr b)
          note gb = this
          have fb: "findBlock c (ev_addr ev) False = Inr (Some bp)"
            using Some \<open>findBlock c (ev_addr ev) False = Inr block\<close> by simp
          show ?thesis
          proof (cases "status b = EXCLUSIVE")
            case True
            with fb gb show ?thesis by blast
          next
            case False
            with 2 h fb gb have "handleCPURequest disp ev fp c = Inl AssertFailed" by blast
            with h show ?thesis by simp
          qed
        qed
      qed
    qed
  qed
  have 4: "\<not> queryFlag ev F_LOCKED \<and> findBlock c (ev_addr ev) False = Inr None \<longrightarrow>
            handleCPURequest disp ev fp c =
              loadBlock disp ev UPSTREAM
                (if fp then bump_write_miss (emit (NotifyAccess WRITE MISS (ev_addr ev)) (c\<lparr>isL1 := True\<rparr>))
                 else c\<lparr>isL1 := True\<rparr>)"
    using wr by (auto simp: handleCPURequest_def Let_def)
  from 1 2 3 4 show ?thesis by blast
qed

theorem handleCPURequest_locked_write_witness:
  "handleCPURequest dispatchDefault (setFlag F_LOCKED sample_write) True (sample_with sample_block8) =
     Inl NullDeref \<and>
   handleCPURequest dispatchDefault (setFlag F_LOCKED (sample_write\<lparr>ev_addr := 9\<rparr>)) True
     (sample_with sample_block8) = Inl AssertFailed \<and>
   out (projr (handleCPURequest dispatchDefault sample_write True (sample_with sample_block8))) =
     [NotifyAccess WRITE MISS 16, SelfSend 1 (FinishLoadBlock 0 16 (0, 1))]"
proof -
  let ?c = "sample_with sample_block8"
  have w: "ev_cmd (setFlag F_LOCKED sample_write) = WriteReq"
    "ev_cmd (setFlag F_LOCKED (sample_write\<lparr>ev_addr := 9\<rparr>)) = WriteReq"
    "ev_cmd sample_write = WriteReq"
    by (simp_all add: setFlag_def sample_write_def)
  have l: "queryFlag (setFlag F_LOCKED e) F_LOCKED" for e
    by (simp add: queryFlag_def setFlag_def)
  have u: "\<not> queryFlag sample_write F_LOCKED"
    by (simp add: queryFlag_def sample_write_def sample_event_def)
  have g: "getBlock ?c (0, 0) = Inr sample_block8" by simp
  have s: "status sample_block8 \<noteq> EXCLUSIVE" by (simp add: sample_block8_def)
  have 1: "handleCPURequest dispatchDefault (setFlag F_LOCKED sample_write) True ?c = Inl NullDeref"
    using handleCPURequest_locked_write
            [where ev = "setFlag F_LOCKED sample_write" and c = ?c and disp = dispatchDefault
               and fp = True]
      w l findBlock_sample_write_miss by simp
  have 2: "handleCPURequest dispatchDefault (setFlag F_LOCKED (sample_write\<lparr>ev_addr := 9\<rparr>)) True ?c =
             Inl AssertFailed"
    using handleCPURequest_locked_write
            [where ev = "setFlag F_LOCKED (sample_write\<lparr>ev_addr := 9\<rparr>)" and c = ?c
               and disp = dispatchDefault and fp = True]
      w l findBlock_sample_write_hit g s by blast
  have 3: "handleCPURequest dispatchDefault sample_write True ?c =
             loadBlock dispatchDefault sample_write UPSTREAM
               (bump_write_miss (emit (NotifyAccess WRITE MISS (ev_addr sample_write)) (?c\<lparr>isL1 := True\<rparr>)))"
    using handleCPURequest_locked_write
            [where ev = sample_write and c = ?c and disp = dispatchDefault and fp = True]
      w u findBlock_sample_write_miss by simp
  from 1 2 show ?thesis unfolding 3 loadBlock_sample_write_out by simp
qed

end
